theory Spec2Isabelle
  imports Main "HOL-Library.Word"
begin

unbundle bit_operations_syntax

section \<open>PowerTag gateway register codec (schneider\_modbus.py)\<close>

text \<open>
  A shallow embedding of \<^verbatim>\<open>custom_components/powertag_gateway/schneider_modbus.py\<close>.
  Python integers are \<^typ>\<open>int\<close>, a value that may be \<^verbatim>\<open>None\<close> is an
  \<^typ>\<open>'a option\<close>, a register word of the Modbus transport is a \<^typ>\<open>16 word\<close>, a
  byte is an \<^typ>\<open>8 word\<close>. Every exception the code can raise is a value of
  \<open>error\<close>, and a function that may raise returns \<open>error + 'a\<close> with \<open>Inl\<close> for the
  exception.
\<close>

subsection \<open>Exceptions\<close>

datatype error =
    AssertionError
  | ConnectionError string
  | StructError
  | TypeError
  | ValueError
  | UnicodeDecodeError

subsection \<open>Python operators on values that may be None\<close>

text \<open>
  \<^verbatim>\<open>x & m\<close> where \<^verbatim>\<open>x\<close> is \<^verbatim>\<open>int | None\<close>: on \<^verbatim>\<open>None\<close> Python raises
  \<^verbatim>\<open>TypeError\<close> (unsupported operand types); on an integer it is the bitwise and of
  unbounded two's-complement integers, which is \<open>AND\<close> on \<^typ>\<open>int\<close>.
\<close>

fun py_and :: "int option \<Rightarrow> int \<Rightarrow> error + int" where
  "py_and None m = Inl TypeError"
| "py_and (Some x) m = Inr (x AND m)"

subsection \<open>AlarmStatus\<close>

record AlarmStatus =
  has_alarm :: bool
  alarm_voltage_loss :: bool
  alarm_current_overload :: bool
  alarm_overload_45_percent :: bool
  alarm_load_current_loss :: bool
  alarm_overvoltage :: bool
  alarm_undervoltage :: bool
  alarm_heattag_alarm :: bool
  alarm_heattag_maintenance :: bool
  alarm_heattag_replacement :: bool

text \<open>
  \<^verbatim>\<open>AlarmStatus.__init__(self, bitmask)\<close>. The argument is whatever
  \<^verbatim>\<open>__read_int_16\<close> returned, so it may be \<^verbatim>\<open>None\<close>. Every flag, the three
  HeatTag flags included, is tested on \<^verbatim>\<open>lower_mask = bitmask & 0b1111_1111\<close>.
\<close>

definition AlarmStatus_init :: "int option \<Rightarrow> error + AlarmStatus" where
  "AlarmStatus_init bitmask =
     (case py_and bitmask 0xFF of
        Inl e \<Rightarrow> Inl e
      | Inr lower_mask \<Rightarrow> Inr \<lparr>
          has_alarm = (lower_mask \<noteq> 0),
          alarm_voltage_loss = (lower_mask AND 0x01 \<noteq> 0),
          alarm_current_overload = (lower_mask AND 0x02 \<noteq> 0),
          alarm_overload_45_percent = (lower_mask AND 0x08 \<noteq> 0),
          alarm_load_current_loss = (lower_mask AND 0x10 \<noteq> 0),
          alarm_overvoltage = (lower_mask AND 0x20 \<noteq> 0),
          alarm_undervoltage = (lower_mask AND 0x40 \<noteq> 0),
          alarm_heattag_alarm = (lower_mask AND 0x100 \<noteq> 0),
          alarm_heattag_maintenance = (lower_mask AND 0x400 \<noteq> 0),
          alarm_heattag_replacement = (lower_mask AND 0x800 \<noteq> 0) \<rparr>)"

subsection \<open>Transport\<close>

text \<open>
  The pymodbus client is the only stateful collaborator. A call on it is a \<open>request\<close>
  (the arguments as the code passes them); the state of the client is the list of
  requests issued so far, oldest first; the device is any function of that history
  and the current request. \<^verbatim>\<open>read_holding_registers\<close> returns either an
  \<^verbatim>\<open>ExceptionResponse\<close> (carried here with its \<^verbatim>\<open>str\<close>) or a response whose
  \<^verbatim>\<open>registers\<close> are 16-bit words.
\<close>

datatype request =
    ReadHolding int int int
  | WriteRegisters int "16 word list" int

datatype response =
    ExceptionResponse string
  | Registers "16 word list"

type_synonym history = "request list"
type_synonym device = "history \<Rightarrow> request \<Rightarrow> response"

text \<open>\<^verbatim>\<open>__read(self, address, count, unit)\<close>\<close>

definition read :: "device \<Rightarrow> int \<Rightarrow> int \<Rightarrow> int \<Rightarrow> history \<Rightarrow> (error + 16 word list) \<times> history" where
  "read dev address count unit h =
     (case dev h (ReadHolding address count unit) of
        ExceptionResponse s \<Rightarrow> (Inl (ConnectionError s), h @ [ReadHolding address count unit])
      | Registers registers \<Rightarrow> (Inr registers, h @ [ReadHolding address count unit]))"

text \<open>
  \<^verbatim>\<open>__write(self, address, registers, unit)\<close> (\<open>write\<close> is a keyword of the
  proof language, hence the suffix): the response is printed and not inspected.
\<close>

definition write_regs :: "device \<Rightarrow> int \<Rightarrow> 16 word list \<Rightarrow> int \<Rightarrow> history \<Rightarrow> (error + unit) \<times> history" where
  "write_regs dev address registers unit h = (Inr (), h @ [WriteRegisters address registers unit])"

text \<open>\<^verbatim>\<open>assert (1 <= unit <= 247) or (unit == 255)\<close>\<close>

definition unit_ok :: "int \<Rightarrow> bool" where
  "unit_ok unit = ((1 \<le> unit \<and> unit \<le> 247) \<or> unit = 255)"

subsection \<open>Payload decoder and builder (pymodbus, big-endian bytes and words)\<close>

text \<open>
  \<^verbatim>\<open>decoder(registers)\<close> is \<^verbatim>\<open>BinaryPayloadDecoder.fromRegisters\<close> with big-endian
  byte and word order: each register is packed as two bytes, high byte first. The
  decoder is modelled by the bytes not yet consumed. A \<^verbatim>\<open>decode_*\<close> call consumes
  its bytes from the front and raises \<^verbatim>\<open>struct.error\<close> when fewer are left.
\<close>

definition decoder :: "16 word list \<Rightarrow> 8 word list" where
  "decoder registers =
     concat (map (\<lambda>r. [word_of_int (uint r div 256), word_of_int (uint r mod 256)]) registers)"

definition be_uint :: "8 word list \<Rightarrow> int" where
  "be_uint bs = foldl (\<lambda>acc b. acc * 256 + uint b) 0 bs"

definition decode_uint :: "nat \<Rightarrow> 8 word list \<Rightarrow> error + int \<times> 8 word list" where
  "decode_uint n bs =
     (if length bs < n then Inl StructError else Inr (be_uint (take n bs), drop n bs))"

definition decode_16bit_uint :: "8 word list \<Rightarrow> error + int \<times> 8 word list" where
  "decode_16bit_uint = decode_uint 2"

definition decode_32bit_uint :: "8 word list \<Rightarrow> error + int \<times> 8 word list" where
  "decode_32bit_uint = decode_uint 4"

definition decode_64bit_uint :: "8 word list \<Rightarrow> error + int \<times> 8 word list" where
  "decode_64bit_uint = decode_uint 8"

text \<open>
  \<^verbatim>\<open>decode_32bit_float\<close>: the Python float is represented by the bit pattern of the
  IEEE-754 single it was unpacked from; \<^verbatim>\<open>math.isnan\<close> holds of the patterns with
  all exponent bits set and a non-zero fraction.
\<close>

definition decode_32bit_float :: "8 word list \<Rightarrow> error + 32 word \<times> 8 word list" where
  "decode_32bit_float bs =
     (case decode_uint 4 bs of Inl e \<Rightarrow> Inl e | Inr (v, rest) \<Rightarrow> Inr (word_of_int v, rest))"

definition isnan :: "32 word \<Rightarrow> bool" where
  "isnan f = (f AND 0x7F800000 = 0x7F800000 \<and> f AND 0x007FFFFF \<noteq> 0)"

text \<open>\<^verbatim>\<open>decode_string(size)\<close>: a slice of the payload, shorter when the payload is.\<close>

definition decode_string :: "nat \<Rightarrow> 8 word list \<Rightarrow> 8 word list \<times> 8 word list" where
  "decode_string n bs = (take n bs, drop n bs)"

text \<open>
  \<^verbatim>\<open>BinaryPayloadBuilder.add_16bit_uint\<close> packs with format \<^verbatim>\<open>>H\<close>, which raises
  \<^verbatim>\<open>struct.error\<close> outside \<open>0..65535\<close>; \<^verbatim>\<open>to_registers\<close> regroups the payload
  into 16-bit words, padding an odd payload with a zero byte.
\<close>

definition add_16bit_uint :: "int \<Rightarrow> error + 8 word list" where
  "add_16bit_uint v =
     (if 0 \<le> v \<and> v \<le> 0xFFFF then Inr [word_of_int (v div 256), word_of_int (v mod 256)]
      else Inl StructError)"

fun to_registers :: "8 word list \<Rightarrow> 16 word list" where
  "to_registers (b1 # b0 # rest) = word_of_int (uint b1 * 256 + uint b0) # to_registers rest"
| "to_registers [b1] = [word_of_int (uint b1 * 256)]"
| "to_registers [] = []"

subsection \<open>Typed register reads and writes\<close>

text \<open>\<^verbatim>\<open>__read_float_32(self, address, unit)\<close>\<close>

definition read_float_32 :: "device \<Rightarrow> int \<Rightarrow> int \<Rightarrow> history \<Rightarrow> (error + 32 word option) \<times> history" where
  "read_float_32 dev address unit h =
     (if \<not> unit_ok unit then (Inl AssertionError, h)
      else case read dev address 2 unit h of
        (Inl e, h') \<Rightarrow> (Inl e, h')
      | (Inr registers, h') \<Rightarrow>
          (case decode_32bit_float (decoder registers) of
             Inl e \<Rightarrow> (Inl e, h')
           | Inr (result, _) \<Rightarrow> (Inr (if \<not> isnan result then Some result else None), h')))"

text \<open>\<^verbatim>\<open>__read_int_16(self, address, unit)\<close>\<close>

definition read_int_16 :: "device \<Rightarrow> int \<Rightarrow> int \<Rightarrow> history \<Rightarrow> (error + int option) \<times> history" where
  "read_int_16 dev address unit h =
     (if \<not> unit_ok unit then (Inl AssertionError, h)
      else case read dev address 1 unit h of
        (Inl e, h') \<Rightarrow> (Inl e, h')
      | (Inr registers, h') \<Rightarrow>
          (case decode_16bit_uint (decoder registers) of
             Inl e \<Rightarrow> (Inl e, h')
           | Inr (result, _) \<Rightarrow> (Inr (if result \<noteq> 0xFFFF then Some result else None), h')))"

text \<open>\<^verbatim>\<open>__write_int_16(self, address, unit, value)\<close>\<close>

definition write_int_16 :: "device \<Rightarrow> int \<Rightarrow> int \<Rightarrow> int \<Rightarrow> history \<Rightarrow> (error + unit) \<times> history" where
  "write_int_16 dev address unit v h =
     (if \<not> unit_ok unit then (Inl AssertionError, h)
      else case add_16bit_uint v of
        Inl e \<Rightarrow> (Inl e, h)
      | Inr payload \<Rightarrow> write_regs dev address (to_registers payload) unit h)"

text \<open>\<^verbatim>\<open>__read_int_32(self, address, unit)\<close>\<close>

definition read_int_32 :: "device \<Rightarrow> int \<Rightarrow> int \<Rightarrow> history \<Rightarrow> (error + int option) \<times> history" where
  "read_int_32 dev address unit h =
     (if \<not> unit_ok unit then (Inl AssertionError, h)
      else case read dev address 2 unit h of
        (Inl e, h') \<Rightarrow> (Inl e, h')
      | (Inr registers, h') \<Rightarrow>
          (case decode_32bit_uint (decoder registers) of
             Inl e \<Rightarrow> (Inl e, h')
           | Inr (result, _) \<Rightarrow> (Inr (if result \<noteq> 0x80000000 then Some result else None), h')))"

text \<open>\<^verbatim>\<open>__read_int_64(self, address, unit)\<close>\<close>

definition read_int_64 :: "device \<Rightarrow> int \<Rightarrow> int \<Rightarrow> history \<Rightarrow> (error + int option) \<times> history" where
  "read_int_64 dev address unit h =
     (if \<not> unit_ok unit then (Inl AssertionError, h)
      else case read dev address 4 unit h of
        (Inl e, h') \<Rightarrow> (Inl e, h')
      | (Inr registers, h') \<Rightarrow>
          (case decode_64bit_uint (decoder registers) of
             Inl e \<Rightarrow> (Inl e, h')
           | Inr (result, _) \<Rightarrow>
               (Inr (if result \<noteq> 0x8000000000000000 then Some result else None), h')))"

subsection \<open>Strings\<close>

text \<open>
  A Python \<^verbatim>\<open>str\<close> is the list of its code points. Iterating a \<^verbatim>\<open>bytes\<close> object
  yields integers, and \<^verbatim>\<open>==\<close> between an integer and a string is \<^verbatim>\<open>False\<close>;
  \<open>py_eq\<close> is \<^verbatim>\<open>==\<close> on the two kinds of value that meet in \<^verbatim>\<open>__read_string\<close>.
\<close>

type_synonym py_str = "int list"

datatype py_value = PyInt int | PyStr py_str

fun py_eq :: "py_value \<Rightarrow> py_value \<Rightarrow> bool" where
  "py_eq (PyInt a) (PyInt b) = (a = b)"
| "py_eq (PyStr a) (PyStr b) = (a = b)"
| "py_eq (PyInt a) (PyStr b) = False"
| "py_eq (PyStr a) (PyInt b) = False"

text \<open>
  \<^verbatim>\<open>bytes.decode(b)\<close> decodes UTF-8 strictly: shortest forms only, no surrogates,
  nothing above U+10FFFF, and \<^verbatim>\<open>UnicodeDecodeError\<close> otherwise. On bytes below
  \<open>0x80\<close> it is the ASCII decoding.
\<close>

definition cont :: "8 word \<Rightarrow> bool" where
  "cont b = (0x80 \<le> b \<and> b \<le> 0xBF)"

definition second_ok :: "8 word \<Rightarrow> 8 word \<Rightarrow> bool" where
  "second_ok b0 b1 =
     (if b0 = 0xE0 then 0xA0 \<le> b1 \<and> b1 \<le> 0xBF
      else if b0 = 0xED then 0x80 \<le> b1 \<and> b1 \<le> 0x9F
      else if b0 = 0xF0 then 0x90 \<le> b1 \<and> b1 \<le> 0xBF
      else if b0 = 0xF4 then 0x80 \<le> b1 \<and> b1 \<le> 0x8F
      else cont b1)"

definition low6 :: "8 word \<Rightarrow> int" where
  "low6 b = uint (b AND 0x3F)"

definition and_cons :: "int \<Rightarrow> error + py_str \<Rightarrow> error + py_str" where
  "and_cons c r = (case r of Inl e \<Rightarrow> Inl e | Inr cs \<Rightarrow> Inr (c # cs))"

function (sequential) bytes_decode :: "8 word list \<Rightarrow> error + py_str" where
  "bytes_decode [] = Inr []"
| "bytes_decode (b0 # bs) =
     (if b0 < 0x80 then and_cons (uint b0) (bytes_decode bs)
      else if 0xC2 \<le> b0 \<and> b0 \<le> 0xDF \<and> 1 \<le> length bs \<and> cont (bs ! 0) then
        and_cons (uint (b0 AND 0x1F) * 64 + low6 (bs ! 0)) (bytes_decode (drop 1 bs))
      else if 0xE0 \<le> b0 \<and> b0 \<le> 0xEF \<and> 2 \<le> length bs \<and> second_ok b0 (bs ! 0)
              \<and> cont (bs ! 1) then
        and_cons (uint (b0 AND 0x0F) * 4096 + low6 (bs ! 0) * 64 + low6 (bs ! 1))
          (bytes_decode (drop 2 bs))
      else if 0xF0 \<le> b0 \<and> b0 \<le> 0xF4 \<and> 3 \<le> length bs \<and> second_ok b0 (bs ! 0)
              \<and> cont (bs ! 1) \<and> cont (bs ! 2) then
        and_cons (uint (b0 AND 0x07) * 262144 + low6 (bs ! 0) * 4096 + low6 (bs ! 1) * 64
                  + low6 (bs ! 2))
          (bytes_decode (drop 3 bs))
      else Inl UnicodeDecodeError)"
  by pat_completeness auto
termination
  by (relation "measure length") auto

text \<open>
  \<^verbatim>\<open>__read_string(self, address, count, unit, string_length)\<close>. There is no assertion
  on \<^verbatim>\<open>unit\<close> here. \<^verbatim>\<open>ascii_bytes\<close> is a \<^verbatim>\<open>bytes\<close> object, and the test for
  absence compares each of its elements with the one-character string \<^verbatim>\<open>'\x00'\<close>.
\<close>

definition read_string :: "device \<Rightarrow> int \<Rightarrow> int \<Rightarrow> int \<Rightarrow> nat \<Rightarrow> history \<Rightarrow> (error + py_str option) \<times> history" where
  "read_string dev address count unit string_length h =
     (case read dev address count unit h of
        (Inl e, h') \<Rightarrow> (Inl e, h')
      | (Inr registers, h') \<Rightarrow>
          (let ascii_bytes = fst (decode_string string_length (decoder registers)) in
           if list_all (\<lambda>c. py_eq (PyInt (uint c)) (PyStr [0])) ascii_bytes then (Inr None, h')
           else
             (let filtered_ascii_bytes = filter (\<lambda>b. b \<noteq> 0) ascii_bytes in
              case bytes_decode filtered_ascii_bytes of
                Inl e \<Rightarrow> (Inl e, h')
              | Inr s \<Rightarrow> (Inr (Some s), h'))))"

subsection \<open>Date and time\<close>

text \<open>
  \<^verbatim>\<open>datetime(year, month, day, hour, minute, second, microsecond)\<close> of the standard
  library: the seventh positional parameter is the microsecond. The constructor raises
  \<^verbatim>\<open>ValueError\<close> when a field is out of range.
\<close>

record datetime =
  dt_year :: int
  dt_month :: int
  dt_day :: int
  dt_hour :: int
  dt_minute :: int
  dt_second :: int
  dt_microsecond :: int

definition is_leap :: "int \<Rightarrow> bool" where
  "is_leap y = (y mod 4 = 0 \<and> (y mod 100 \<noteq> 0 \<or> y mod 400 = 0))"

definition days_in_month :: "int \<Rightarrow> int \<Rightarrow> int" where
  "days_in_month y m =
     (if m = 2 then (if is_leap y then 29 else 28)
      else if m = 4 \<or> m = 6 \<or> m = 9 \<or> m = 11 then 30 else 31)"

definition datetime_new :: "int \<Rightarrow> int \<Rightarrow> int \<Rightarrow> int \<Rightarrow> int \<Rightarrow> int \<Rightarrow> int \<Rightarrow> error + datetime" where
  "datetime_new y mo d hh mi ss us =
     (if \<not> (1 \<le> y \<and> y \<le> 9999) then Inl ValueError
      else if \<not> (1 \<le> mo \<and> mo \<le> 12) then Inl ValueError
      else if \<not> (1 \<le> d \<and> d \<le> days_in_month y mo) then Inl ValueError
      else if \<not> (0 \<le> hh \<and> hh \<le> 23) then Inl ValueError
      else if \<not> (0 \<le> mi \<and> mi \<le> 59) then Inl ValueError
      else if \<not> (0 \<le> ss \<and> ss \<le> 59) then Inl ValueError
      else if \<not> (0 \<le> us \<and> us \<le> 999999) then Inl ValueError
      else Inr \<lparr> dt_year = y, dt_month = mo, dt_day = d, dt_hour = hh, dt_minute = mi,
                 dt_second = ss, dt_microsecond = us \<rparr>)"

text \<open>Sequencing of steps that may raise: the first exception ends the computation.\<close>

definition and_then :: "error + 'a \<Rightarrow> ('a \<Rightarrow> error + 'b) \<Rightarrow> error + 'b" where
  "and_then r f = (case r of Inl e \<Rightarrow> Inl e | Inr x \<Rightarrow> f x)"

text \<open>
  \<^verbatim>\<open>__read_date_time(self, address, unit)\<close>. There is no assertion on \<^verbatim>\<open>unit\<close>
  here. \<open>decode_date_time\<close> is the body after the read, on the decoder \<^verbatim>\<open>d\<close>: four
  \<^verbatim>\<open>decode_16bit_uint\<close> calls, the field arithmetic, the test for absence, and the
  construction of the \<^verbatim>\<open>datetime\<close>. \<^verbatim>\<open>math.floor(second_millisecond / 1000)\<close> on
  a 16-bit value is the integer quotient. The local \<^verbatim>\<open>millisecond\<close> is passed as the
  seventh argument of \<^verbatim>\<open>datetime\<close>.
\<close>

definition date_time_fields :: "int \<Rightarrow> int \<Rightarrow> int \<Rightarrow> int \<Rightarrow> error + datetime option" where
  "date_time_fields year_raw day_month minute_hour second_millisecond =
     (let year = (year_raw AND 0x7F) + 2000;
          day = day_month AND 0x1F;
          month = drop_bit 8 day_month AND 0x0F;
          minute = minute_hour AND 0x3F;
          hour = drop_bit 8 minute_hour AND 0x1F;
          second = second_millisecond div 1000;
          millisecond = second_millisecond - second * 1000
      in if year_raw = 0xFFFF \<and> day_month = 0xFFFF \<and> minute_hour = 0xFFFF
            \<and> second_millisecond = 0xFFFF
         then Inr None
         else and_then (datetime_new year month day hour minute second millisecond)
                (\<lambda>dt. Inr (Some dt)))"

definition decode_date_time :: "8 word list \<Rightarrow> error + datetime option" where
  "decode_date_time d =
     and_then (decode_16bit_uint d) (\<lambda>(year_raw, d1).
     and_then (decode_16bit_uint d1) (\<lambda>(day_month, d2).
     and_then (decode_16bit_uint d2) (\<lambda>(minute_hour, d3).
     and_then (decode_16bit_uint d3) (\<lambda>(second_millisecond, d4).
       date_time_fields year_raw day_month minute_hour second_millisecond))))"

definition read_date_time :: "device \<Rightarrow> int \<Rightarrow> int \<Rightarrow> history \<Rightarrow> (error + datetime option) \<times> history" where
  "read_date_time dev address unit h =
     (case read dev address 4 unit h of
        (Inl e, h') \<Rightarrow> (Inl e, h')
      | (Inr registers, h') \<Rightarrow> (decode_date_time (decoder registers), h'))"

subsection \<open>Enumerations\<close>

text \<open>
  \<^verbatim>\<open>class DeviceUsage(enum.Enum)\<close>. Calling the class on a value looks the member with
  that value up and raises \<^verbatim>\<open>ValueError\<close> when there is none. The member
  \<^verbatim>\<open>INVALID\<close> has the value \<^verbatim>\<open>None\<close>.
\<close>

datatype DeviceUsage =
    main_incomer
  | sub_head_of_group
  | heating
  | cooling
  | hvac
  | ventilation
  | lighting
  | office_equipment
  | cooking
  | food_refrigeration
  | elevators
  | computers
  | renewable_energy_production
  | genset
  | compressed_air
  | vapor
  | machine
  | process
  | water
  | other_sockets
  | other
  | INVALID

fun DeviceUsage_value :: "DeviceUsage \<Rightarrow> int option" where
  "DeviceUsage_value main_incomer = Some 1"
| "DeviceUsage_value sub_head_of_group = Some 2"
| "DeviceUsage_value heating = Some 3"
| "DeviceUsage_value cooling = Some 4"
| "DeviceUsage_value hvac = Some 5"
| "DeviceUsage_value ventilation = Some 6"
| "DeviceUsage_value lighting = Some 7"
| "DeviceUsage_value office_equipment = Some 8"
| "DeviceUsage_value cooking = Some 9"
| "DeviceUsage_value food_refrigeration = Some 10"
| "DeviceUsage_value elevators = Some 11"
| "DeviceUsage_value computers = Some 12"
| "DeviceUsage_value renewable_energy_production = Some 13"
| "DeviceUsage_value genset = Some 14"
| "DeviceUsage_value compressed_air = Some 15"
| "DeviceUsage_value vapor = Some 16"
| "DeviceUsage_value machine = Some 17"
| "DeviceUsage_value process = Some 18"
| "DeviceUsage_value water = Some 19"
| "DeviceUsage_value other_sockets = Some 20"
| "DeviceUsage_value other = Some 21"
| "DeviceUsage_value INVALID = None"

definition DeviceUsage_members :: "DeviceUsage list" where
  "DeviceUsage_members =
     [main_incomer, sub_head_of_group, heating, cooling,
      hvac, ventilation, lighting, office_equipment,
      cooking, food_refrigeration, elevators, computers,
      renewable_energy_production, genset, compressed_air, vapor,
      machine, process, water, other_sockets,
      other, INVALID]"

definition DeviceUsage_call :: "int option \<Rightarrow> error + DeviceUsage" where
  "DeviceUsage_call v =
     (case find (\<lambda>m. DeviceUsage_value m = v) DeviceUsage_members of
        None \<Rightarrow> Inl ValueError
      | Some m \<Rightarrow> Inr m)"

text \<open>\<^verbatim>\<open>class ProductType(enum.Enum)\<close>: each value is a pair of a code and a label.\<close>

datatype ProductType =
    A9MEM1520
  | A9MEM1521
  | A9MEM1522
  | A9MEM1540
  | A9MEM1541
  | A9MEM1542
  | A9MEM1560
  | A9MEM1561
  | A9MEM1562
  | A9MEM1563
  | A9MEM1570
  | A9MEM1571
  | A9MEM1572
  | LV434020
  | LV434021
  | LV434022
  | LV434023
  | A9MEM1543
  | A9XMC2D3
  | A9XMC1D3
  | A9MEM1564
  | A9MEM1573
  | A9MEM1574
  | A9MEM1590
  | A9MEM1591
  | A9MEM1592
  | A9MEM1593
  | A9MEM1580
  | A9XMWRD
  | SMT10020

fun ProductType_value :: "ProductType \<Rightarrow> int \<times> string" where
  "ProductType_value A9MEM1520 = (41, ''PowerTag M63 1P'')"
| "ProductType_value A9MEM1521 = (42, ''PowerTag M63 1P+N Top'')"
| "ProductType_value A9MEM1522 = (43, ''PowerTag M63 1P+N Bottom'')"
| "ProductType_value A9MEM1540 = (44, ''PowerTag M63 3P'')"
| "ProductType_value A9MEM1541 = (45, ''PowerTag M63 3P+N Top'')"
| "ProductType_value A9MEM1542 = (46, ''PowerTag M63 3P+N Bottom'')"
| "ProductType_value A9MEM1560 = (81, ''PowerTag F63 1P+N'')"
| "ProductType_value A9MEM1561 = (82, ''PowerTag P63 1P+N Top'')"
| "ProductType_value A9MEM1562 = (83, ''PowerTag P63 1P+N Bottom'')"
| "ProductType_value A9MEM1563 = (84, ''PowerTag P63 1P+N Bottom'')"
| "ProductType_value A9MEM1570 = (85, ''PowerTag F63 3P+N'')"
| "ProductType_value A9MEM1571 = (86, ''PowerTag P63 3P+N Top'')"
| "ProductType_value A9MEM1572 = (87, ''PowerTag P63 3P+N Bottom'')"
| "ProductType_value LV434020 = (92, ''PowerTag M250 3P'')"
| "ProductType_value LV434021 = (93, ''PowerTag M250 4P'')"
| "ProductType_value LV434022 = (94, ''PowerTag M630 3P'')"
| "ProductType_value LV434023 = (95, ''PowerTag M630 4P'')"
| "ProductType_value A9MEM1543 = (96, ''PowerTag M63 3P 230 V'')"
| "ProductType_value A9XMC2D3 = (97, ''PowerTag C 2DI 230 V'')"
| "ProductType_value A9XMC1D3 = (98, ''PowerTag C IO 230 V'')"
| "ProductType_value A9MEM1564 = (101, ''PowerTag F63 1P+N 110 V'')"
| "ProductType_value A9MEM1573 = (102, ''PowerTag F63 3P'')"
| "ProductType_value A9MEM1574 = (103, ''PowerTag F63 3P+N 110/230 V'')"
| "ProductType_value A9MEM1590 = (104, ''PowerTag R200'')"
| "ProductType_value A9MEM1591 = (105, ''PowerTag R600'')"
| "ProductType_value A9MEM1592 = (106, ''PowerTag R1000'')"
| "ProductType_value A9MEM1593 = (107, ''PowerTag R2000'')"
| "ProductType_value A9MEM1580 = (121, ''PowerTag F160'')"
| "ProductType_value A9XMWRD = (170, ''PowerTag Link display'')"
| "ProductType_value SMT10020 = (171, ''HeatTag sensor'')"

definition ProductType_members :: "ProductType list" where
  "ProductType_members =
     [A9MEM1520, A9MEM1521, A9MEM1522, A9MEM1540, A9MEM1541, A9MEM1542,
      A9MEM1560, A9MEM1561, A9MEM1562, A9MEM1563, A9MEM1570, A9MEM1571,
      A9MEM1572, LV434020, LV434021, LV434022, LV434023, A9MEM1543,
      A9XMC2D3, A9XMC1D3, A9MEM1564, A9MEM1573, A9MEM1574, A9MEM1590,
      A9MEM1591, A9MEM1592, A9MEM1593, A9MEM1580, A9XMWRD, SMT10020]"

subsection \<open>Public operations\<close>

text \<open>
  Each accessor is one typed read at a fixed address; \<^verbatim>\<open>power_tag_index\<close> is passed
  as the unit identifier. \<open>on_result\<close> applies the rest of the accessor's body to the value
  that the read returned and keeps the history.
\<close>

definition on_result :: "(error + 'a) \<times> history \<Rightarrow> ('a \<Rightarrow> error + 'b) \<Rightarrow> (error + 'b) \<times> history" where
  "on_result r f = (case r of (x, h) \<Rightarrow> (and_then x f, h))"

definition POWERTAG_LINK_SLAVE_ID :: int where
  "POWERTAG_LINK_SLAVE_ID = 255"

definition SYNTHESIS_TABLE_SLAVE_ID_START :: int where
  "SYNTHESIS_TABLE_SLAVE_ID_START = 247"

definition date_time :: "device \<Rightarrow> history \<Rightarrow> (error + datetime option) \<times> history" where
  "date_time dev h = read_date_time dev 0x0073 POWERTAG_LINK_SLAVE_ID h"

definition tag_power_active_demand_total_maximum_timestamp :: "device \<Rightarrow> int \<Rightarrow> history \<Rightarrow> (error + datetime option) \<times> history" where
  "tag_power_active_demand_total_maximum_timestamp dev power_tag_index h =
     read_date_time dev 0x0EBB power_tag_index h"

definition tag_load_operating_time_start :: "device \<Rightarrow> int \<Rightarrow> history \<Rightarrow> (error + datetime option) \<times> history" where
  "tag_load_operating_time_start dev power_tag_index h = read_date_time dev 0xCEF power_tag_index h"

definition tag_is_alarm_valid :: "device \<Rightarrow> int \<Rightarrow> history \<Rightarrow> (error + bool) \<times> history" where
  "tag_is_alarm_valid dev power_tag_index h =
     on_result (read_int_16 dev 0xCE1 power_tag_index h)
       (\<lambda>r. and_then (py_and r 1) (\<lambda>x. Inr (x \<noteq> 0)))"

definition tag_get_alarm :: "device \<Rightarrow> int \<Rightarrow> history \<Rightarrow> (error + AlarmStatus) \<times> history" where
  "tag_get_alarm dev power_tag_index h =
     on_result (read_int_16 dev 0xCE3 power_tag_index h) AlarmStatus_init"

definition tag_name :: "device \<Rightarrow> int \<Rightarrow> history \<Rightarrow> (error + py_str option) \<times> history" where
  "tag_name dev power_tag_index h = read_string dev 0x7918 10 power_tag_index 20 h"

definition tag_circuit :: "device \<Rightarrow> int \<Rightarrow> history \<Rightarrow> (error + py_str option) \<times> history" where
  "tag_circuit dev power_tag_index h = read_string dev 0x7922 3 power_tag_index 5 h"

definition tag_usage :: "device \<Rightarrow> int \<Rightarrow> history \<Rightarrow> (error + DeviceUsage) \<times> history" where
  "tag_usage dev power_tag_index h =
     on_result (read_int_16 dev 0x7925 power_tag_index h) DeviceUsage_call"

definition tag_reset_peak_demands :: "device \<Rightarrow> int \<Rightarrow> history \<Rightarrow> (error + unit) \<times> history" where
  "tag_reset_peak_demands dev power_tag_index h = write_int_16 dev 0x792E power_tag_index 1 h"

text \<open>
  \<^verbatim>\<open>tag_product_type\<close>: the members whose code equals the value read (which may be
  \<^verbatim>\<open>None\<close>, equal to no code), the first of them if there is one.
\<close>

definition tag_product_type :: "device \<Rightarrow> int \<Rightarrow> history \<Rightarrow> (error + ProductType option) \<times> history" where
  "tag_product_type dev power_tag_index h =
     on_result (read_int_16 dev 0x7930 power_tag_index h)
       (\<lambda>code.
          (let product_type = filter (\<lambda>p. Some (fst (ProductType_value p)) = code) ProductType_members
           in Inr (case product_type of [] \<Rightarrow> None | p # _ \<Rightarrow> Some p)))"

definition tag_radio_rssi_inside_tag :: "device \<Rightarrow> int \<Rightarrow> history \<Rightarrow> (error + 32 word option) \<times> history" where
  "tag_radio_rssi_inside_tag dev power_tag_index h = read_float_32 dev 0x79B6 power_tag_index h"

definition tag_radio_rssi_inside_gateway :: "device \<Rightarrow> int \<Rightarrow> history \<Rightarrow> (error + 32 word option) \<times> history" where
  "tag_radio_rssi_inside_gateway dev power_tag_index h = read_float_32 dev 0x79B1 power_tag_index h"

definition tag_radio_rssi_minimum :: "device \<Rightarrow> int \<Rightarrow> history \<Rightarrow> (error + 32 word option) \<times> history" where
  "tag_radio_rssi_minimum dev power_tag_index h = read_float_32 dev 0x79B6 power_tag_index h"

subsection \<open>Synthesis-table unit resolution\<close>

text \<open>
  \<^verbatim>\<open>range(start, stop, -1)\<close> is \<open>start, start - 1, \<dots>, stop + 1\<close>. The loop of
  \<^verbatim>\<open>find_synthentic_table_slave_id\<close> runs over it: a probe that returns ends the
  loop with that candidate, a \<^verbatim>\<open>ConnectionError\<close> moves on to the next candidate,
  any other exception propagates, and the exhausted loop raises \<^verbatim>\<open>ConnectionError\<close>.
\<close>

definition range_down :: "int \<Rightarrow> int \<Rightarrow> int list" where
  "range_down start stop = rev [stop + 1 .. start]"

fun probe_loop :: "device \<Rightarrow> int list \<Rightarrow> history \<Rightarrow> (error + int) \<times> history" where
  "probe_loop dev [] h = (Inl (ConnectionError ''Could not find synthetic slave ID''), h)"
| "probe_loop dev (slave_id # rest) h =
     (case read_int_16 dev 0x0001 slave_id h of
        (Inr _, h') \<Rightarrow> (Inr slave_id, h')
      | (Inl (ConnectionError _), h') \<Rightarrow> probe_loop dev rest h'
      | (Inl e, h') \<Rightarrow> (Inl e, h'))"

definition find_synthentic_table_slave_id :: "device \<Rightarrow> history \<Rightarrow> (error + int) \<times> history" where
  "find_synthentic_table_slave_id dev h =
     probe_loop dev (range_down SYNTHESIS_TABLE_SLAVE_ID_START 1) h"

subsection \<open>Example devices\<close>

text \<open>
  Devices used to run the code on concrete inputs: one that answers every read with the
  same registers, one that never answers, one that answers the probe of unit 42 only,
  two whose answer depends on the number of registers requested (the sentinel of each
  width, and ordinary values), and one that holds the 32-bit float 1.0 at address
  \<open>0x79B1\<close> of unit 1 and 2.0 everywhere else.
\<close>

definition constant_device :: "16 word list \<Rightarrow> device" where
  "constant_device rs h r = Registers rs"

definition silent_device :: device where
  "silent_device h r = ExceptionResponse ''Exception Response(131, 3, GatewayNoResponse)''"

definition only_unit_42 :: device where
  "only_unit_42 h r =
     (if r = ReadHolding 0x0001 1 42 then Registers [0x4242]
      else ExceptionResponse ''Exception Response(131, 3, GatewayNoResponse)'')"

definition sentinel_device :: device where
  "sentinel_device h r =
     (case r of
        ReadHolding address count unit \<Rightarrow>
          (if count = 1 then Registers [0xFFFF]
           else if count = 2 then Registers [0x8000, 0x0000]
           else Registers [0x8000, 0x0000, 0x0000, 0x0000])
      | WriteRegisters address registers unit \<Rightarrow> Registers [])"

definition counting_device :: device where
  "counting_device h r =
     (case r of
        ReadHolding address count unit \<Rightarrow>
          (if count = 1 then Registers [0x1234]
           else if count = 2 then Registers [0x0001, 0x0002]
           else Registers [0x0001, 0x0002, 0x0003, 0x0004])
      | WriteRegisters address registers unit \<Rightarrow> Registers [])"

definition rssi_device :: device where
  "rssi_device h r =
     (if r = ReadHolding 0x79B1 2 1 then Registers [0x3F80, 0x0000]
      else Registers [0x4000, 0x0000])"

section \<open>Properties\<close>

subsection \<open>Bit tests on the masked alarm word\<close>

lemma low_mask_test:
  fixes x :: int
  shows "((x AND 0xFF) AND 2 ^ n \<noteq> 0) = (n < 8 \<and> bit x n)"
proof -
  have m: "(0xFF :: int) = mask 8" by (simp add: mask_eq_exp_minus_1)
  have "((x AND mask 8) AND 2 ^ n = 0) = (\<not> bit (x AND mask 8) n)"
    by (rule and_exp_eq_0_iff_not_bit)
  also have "\<dots> = (\<not> (n < 8 \<and> bit x n))"
    by (auto simp add: bit_and_iff bit_mask_iff)
  finally show ?thesis unfolding m by simp
qed

lemma low_mask_nonzero:
  fixes w :: "16 word"
  shows "(uint w AND 0xFF \<noteq> 0) =
    (bit w 0 \<or> bit w 1 \<or> bit w 2 \<or> bit w 3 \<or> bit w 4 \<or> bit w 5 \<or> bit w 6 \<or> bit w 7)"
proof -
  have m: "(0xFF :: int) = mask 8" by (simp add: mask_eq_exp_minus_1)
  have "(uint w AND mask 8 \<noteq> 0) = (\<exists>n<8. bit w n)"
    by (auto simp add: bit_eq_iff bit_and_iff bit_mask_iff bit_uint_iff)
  also have "\<dots> = (\<exists>n \<in> {0, 1, 2, 3, 4, 5, 6, 7}. bit w n)"
  proof -
    have "{n::nat. n < 8} = {0, 1, 2, 3, 4, 5, 6, 7}" by auto
    then show ?thesis by blast
  qed
  also have "\<dots> = (bit w 0 \<or> bit w 1 \<or> bit w 2 \<or> bit w 3 \<or> bit w 4 \<or> bit w 5 \<or> bit w 6 \<or> bit w 7)"
    by simp
  finally show ?thesis unfolding m .
qed

lemma AlarmStatus_low_flags:
  fixes w :: "16 word"
  shows "\<exists>a. AlarmStatus_init (Some (uint w)) = Inr a
      \<and> alarm_voltage_loss a = bit w 0
      \<and> alarm_current_overload a = bit w 1
      \<and> alarm_overload_45_percent a = bit w 3
      \<and> alarm_load_current_loss a = bit w 4
      \<and> alarm_overvoltage a = bit w 5
      \<and> alarm_undervoltage a = bit w 6
      \<and> has_alarm a = (alarm_voltage_loss a \<or> alarm_current_overload a \<or> bit w 2
            \<or> alarm_overload_45_percent a \<or> alarm_load_current_loss a
            \<or> alarm_overvoltage a \<or> alarm_undervoltage a \<or> bit w 7)"
proof -
  have b0: "((uint w AND 0xFF) AND 0x01 \<noteq> 0) = bit w 0"
    using low_mask_test [of "uint w" 0] by (simp add: bit_uint_iff)
  have b1: "((uint w AND 0xFF) AND 0x02 \<noteq> 0) = bit w 1"
    using low_mask_test [of "uint w" 1] by (simp add: bit_uint_iff)
  have b3: "((uint w AND 0xFF) AND 0x08 \<noteq> 0) = bit w 3"
    using low_mask_test [of "uint w" 3] by (simp add: bit_uint_iff)
  have b4: "((uint w AND 0xFF) AND 0x10 \<noteq> 0) = bit w 4"
    using low_mask_test [of "uint w" 4] by (simp add: bit_uint_iff)
  have b5: "((uint w AND 0xFF) AND 0x20 \<noteq> 0) = bit w 5"
    using low_mask_test [of "uint w" 5] by (simp add: bit_uint_iff)
  have b6: "((uint w AND 0xFF) AND 0x40 \<noteq> 0) = bit w 6"
    using low_mask_test [of "uint w" 6] by (simp add: bit_uint_iff)
  show ?thesis
    unfolding AlarmStatus_init_def
    using b0 b1 b3 b4 b5 b6 low_mask_nonzero [of w] by auto
qed

subsection \<open>Bytes, words and typed reads\<close>

lemma uint_high_byte:
  fixes r :: "16 word"
  shows "uint (word_of_int (uint r div 256) :: 8 word) = uint r div 256"
proof -
  have "uint r < 65536" using uint_bounded [of r] by simp
  then have lt: "uint r div 256 < 2 ^ 8" by simp
  have "0 \<le> uint r" by simp
  then have ge: "0 \<le> uint r div 256" by (rule pos_imp_zdiv_nonneg_iff [THEN iffD2, rotated]) simp
  have "uint (word_of_int (uint r div 256) :: 8 word) = take_bit 8 (uint r div 256)"
    by (simp add: uint_word_of_int_eq)
  also have "\<dots> = uint r div 256"
    using ge lt by (rule take_bit_int_eq_self)
  finally show ?thesis .
qed

lemma uint_low_byte:
  fixes r :: "16 word"
  shows "uint (word_of_int (uint r mod 256) :: 8 word) = uint r mod 256"
proof -
  have "uint (word_of_int (uint r mod 256) :: 8 word) = take_bit 8 (uint r mod 256)"
    by (simp add: uint_word_of_int_eq)
  also have "\<dots> = uint r mod 256"
    by (rule take_bit_int_eq_self) simp_all
  finally show ?thesis .
qed

lemma be_uint_register:
  fixes r :: "16 word"
  shows "foldl (\<lambda>acc b. acc * 256 + uint b) a
           [word_of_int (uint r div 256) :: 8 word, word_of_int (uint r mod 256)]
         = a * 65536 + uint r"
proof -
  have "foldl (\<lambda>acc b. acc * 256 + uint b) a
           [word_of_int (uint r div 256) :: 8 word, word_of_int (uint r mod 256)]
        = (a * 256 + uint (word_of_int (uint r div 256) :: 8 word)) * 256
            + uint (word_of_int (uint r mod 256) :: 8 word)"
    by (simp only: foldl.simps)
  also have "\<dots> = (a * 256 + uint r div 256) * 256 + uint r mod 256"
    by (simp only: uint_high_byte uint_low_byte)
  also have "\<dots> = a * 65536 + (uint r div 256 * 256 + uint r mod 256)"
    by (simp add: algebra_simps)
  also have "\<dots> = a * 65536 + uint r"
    by (simp only: div_mult_mod_eq)
  finally show ?thesis .
qed


lemma decode_uint_2: "decode_uint 2 (a # b # xs) = Inr (be_uint [a, b], xs)"
  by (simp add: decode_uint_def)

lemma decode_uint_4: "decode_uint 4 (a # b # c # d # xs) = Inr (be_uint [a, b, c, d], xs)"
  by (simp add: decode_uint_def)

lemma decode_uint_8:
  "decode_uint 8 (a # b # c # d # e # f # g # i # xs) = Inr (be_uint [a, b, c, d, e, f, g, i], xs)"
  by (simp add: decode_uint_def)

lemma be_uint_append: "be_uint (xs @ ys) = foldl (\<lambda>acc b. acc * 256 + uint b) (be_uint xs) ys"
  by (simp add: be_uint_def)

lemma be_uint_2:
  fixes r :: "16 word"
  shows "be_uint [word_of_int (uint r div 256), word_of_int (uint r mod 256)] = uint r"
  unfolding be_uint_def using be_uint_register [of 0 r] by (simp only: mult_zero_left add_0)

lemma be_uint_snoc_register:
  fixes r :: "16 word"
  shows "be_uint (xs @ [word_of_int (uint r div 256), word_of_int (uint r mod 256)])
         = be_uint xs * 65536 + uint r"
  by (simp only: be_uint_append be_uint_register)

lemma decoder_Cons:
  "decoder (r # rs) = word_of_int (uint r div 256) # word_of_int (uint r mod 256) # decoder rs"
  by (simp add: decoder_def del: word_of_int_uint)

lemma decode_16bit_uint_decoder:
  "decode_16bit_uint (decoder (r # rs)) = Inr (uint r, decoder rs)"
  by (simp only: decode_16bit_uint_def decoder_Cons decode_uint_2 be_uint_2)

lemma decode_32bit_uint_decoder:
  "decode_32bit_uint (decoder (r1 # r0 # rs)) = Inr (uint r1 * 65536 + uint r0, decoder rs)"
proof -
  have "be_uint ([word_of_int (uint r1 div 256), word_of_int (uint r1 mod 256)]
          @ [word_of_int (uint r0 div 256), word_of_int (uint r0 mod 256)])
        = uint r1 * 65536 + uint r0"
    by (simp only: be_uint_snoc_register be_uint_2)
  then show ?thesis
    by (simp only: decode_32bit_uint_def decoder_Cons decode_uint_4 append.simps)
qed

lemma decode_64bit_uint_decoder:
  "decode_64bit_uint (decoder (r3 # r2 # r1 # r0 # rs)) =
     Inr (((uint r3 * 65536 + uint r2) * 65536 + uint r1) * 65536 + uint r0, decoder rs)"
proof -
  have "be_uint ((([word_of_int (uint r3 div 256), word_of_int (uint r3 mod 256)]
          @ [word_of_int (uint r2 div 256), word_of_int (uint r2 mod 256)])
          @ [word_of_int (uint r1 div 256), word_of_int (uint r1 mod 256)])
          @ [word_of_int (uint r0 div 256), word_of_int (uint r0 mod 256)])
        = ((uint r3 * 65536 + uint r2) * 65536 + uint r1) * 65536 + uint r0"
    by (simp only: be_uint_snoc_register be_uint_2)
  then show ?thesis
    by (simp only: decode_64bit_uint_def decoder_Cons decode_uint_8 append.simps)
qed


lemma read_Registers:
  "dev h (ReadHolding address count unit) = Registers rs \<Longrightarrow>
   read dev address count unit h = (Inr rs, h @ [ReadHolding address count unit])"
  by (simp add: read_def)

lemma read_ExceptionResponse:
  "dev h (ReadHolding address count unit) = ExceptionResponse s \<Longrightarrow>
   read dev address count unit h = (Inl (ConnectionError s), h @ [ReadHolding address count unit])"
  by (simp add: read_def)

lemma read_int_16_Registers:
  assumes "unit_ok unit" and "dev h (ReadHolding address 1 unit) = Registers (r # rs)"
  shows "read_int_16 dev address unit h =
     (Inr (if uint r \<noteq> 0xFFFF then Some (uint r) else None), h @ [ReadHolding address 1 unit])"
proof -
  have "read dev address 1 unit h = (Inr (r # rs), h @ [ReadHolding address 1 unit])"
    using assms(2) by (rule read_Registers)
  then show ?thesis
    unfolding read_int_16_def using assms(1)
    by (simp only: decode_16bit_uint_decoder if_False not_True_eq_False prod.case sum.case
        not_not simp_thms)
qed


lemma read_int_16_ExceptionResponse:
  assumes "unit_ok unit" and "dev h (ReadHolding address 1 unit) = ExceptionResponse s"
  shows "read_int_16 dev address unit h = (Inl (ConnectionError s), h @ [ReadHolding address 1 unit])"
proof -
  have "read dev address 1 unit h = (Inl (ConnectionError s), h @ [ReadHolding address 1 unit])"
    using assms(2) by (rule read_ExceptionResponse)
  then show ?thesis
    unfolding read_int_16_def using assms(1)
    by (simp only: if_False not_True_eq_False prod.case sum.case not_not simp_thms)
qed

lemma read_int_32_Registers:
  assumes "unit_ok unit" and "dev h (ReadHolding address 2 unit) = Registers (r1 # r0 # rs)"
  shows "read_int_32 dev address unit h =
     (Inr (if uint r1 * 65536 + uint r0 \<noteq> 0x80000000 then Some (uint r1 * 65536 + uint r0)
           else None),
      h @ [ReadHolding address 2 unit])"
proof -
  have "read dev address 2 unit h = (Inr (r1 # r0 # rs), h @ [ReadHolding address 2 unit])"
    using assms(2) by (rule read_Registers)
  then show ?thesis
    unfolding read_int_32_def using assms(1)
    by (simp only: decode_32bit_uint_decoder if_False not_True_eq_False prod.case sum.case
        not_not simp_thms)
qed

lemma read_int_64_Registers:
  assumes "unit_ok unit"
    and "dev h (ReadHolding address 4 unit) = Registers (r3 # r2 # r1 # r0 # rs)"
  shows "read_int_64 dev address unit h =
     (Inr (if ((uint r3 * 65536 + uint r2) * 65536 + uint r1) * 65536 + uint r0
                \<noteq> 0x8000000000000000
           then Some (((uint r3 * 65536 + uint r2) * 65536 + uint r1) * 65536 + uint r0)
           else None),
      h @ [ReadHolding address 4 unit])"
proof -
  have "read dev address 4 unit h
        = (Inr (r3 # r2 # r1 # r0 # rs), h @ [ReadHolding address 4 unit])"
    using assms(2) by (rule read_Registers)
  then show ?thesis
    unfolding read_int_64_def using assms(1)
    by (simp only: decode_64bit_uint_decoder if_False not_True_eq_False prod.case sum.case
        not_not simp_thms)
qed

lemma decode_32bit_float_decoder:
  "decode_32bit_float (decoder (r1 # r0 # rs))
   = Inr (word_of_int (uint r1 * 65536 + uint r0), decoder rs)"
  using decode_32bit_uint_decoder [of r1 r0 rs]
  unfolding decode_32bit_float_def decode_32bit_uint_def
  by (simp only: sum.case prod.case)

lemma read_float_32_Registers:
  assumes "unit_ok unit" and "dev h (ReadHolding address 2 unit) = Registers (r1 # r0 # rs)"
  shows "read_float_32 dev address unit h =
     (Inr (if \<not> isnan (word_of_int (uint r1 * 65536 + uint r0))
           then Some (word_of_int (uint r1 * 65536 + uint r0)) else None),
      h @ [ReadHolding address 2 unit])"
proof -
  have "read dev address 2 unit h = (Inr (r1 # r0 # rs), h @ [ReadHolding address 2 unit])"
    using assms(2) by (rule read_Registers)
  then show ?thesis
    unfolding read_float_32_def using assms(1)
    by (simp only: decode_32bit_float_decoder if_False not_True_eq_False prod.case sum.case
        not_not simp_thms)
qed

lemma asserted_reads_refuse_unit:
  assumes "\<not> unit_ok unit"
  shows "read_int_16 dev address unit h = (Inl AssertionError, h)"
    and "read_int_32 dev address unit h = (Inl AssertionError, h)"
    and "read_int_64 dev address unit h = (Inl AssertionError, h)"
    and "read_float_32 dev address unit h = (Inl AssertionError, h)"
    and "write_int_16 dev address unit v h = (Inl AssertionError, h)"
  using assms
  by (simp_all only: read_int_16_def read_int_32_def read_int_64_def read_float_32_def
      write_int_16_def if_True simp_thms)

subsection \<open>C1: alarm bitmask decode\<close>

text \<open>
  C1, as the code has it. At the 16-bit value \<open>0x0D04\<close> (bits 2, 8, 10 and 11 set) the
  claim fails twice: the three HeatTag flags are false although bits 8, 10 and 11 are
  set, and \<open>has_alarm\<close> is true although no named flag is.
\<close>

theorem AlarmStatus_claim_counterexample:
  "AlarmStatus_init (Some (uint (0x0D04 :: 16 word))) = Inr \<lparr> has_alarm = True,
      alarm_voltage_loss = False, alarm_current_overload = False,
      alarm_overload_45_percent = False, alarm_load_current_loss = False,
      alarm_overvoltage = False, alarm_undervoltage = False,
      alarm_heattag_alarm = False, alarm_heattag_maintenance = False,
      alarm_heattag_replacement = False \<rparr>
   \<and> bit (0x0D04 :: 16 word) 8 \<and> bit (0x0D04 :: 16 word) 10 \<and> bit (0x0D04 :: 16 word) 11"
  by (simp add: AlarmStatus_init_def bit_iff_odd)

text \<open>
  C1 (amended): for every 16-bit value \<open>w\<close> the constructor returns a status and never
  raises; the flags \<open>alarm_voltage_loss\<close>, \<open>alarm_current_overload\<close>,
  \<open>alarm_overload_45_percent\<close>, \<open>alarm_load_current_loss\<close>, \<open>alarm_overvoltage\<close> and
  \<open>alarm_undervoltage\<close> are bits 0, 1, 3, 4, 5 and 6 of \<open>w\<close>; \<open>has_alarm\<close> is true iff
  one of these six flags, the reserved bit 2 or bit 7 is set; decoding 3 gives
  \<open>alarm_voltage_loss\<close>, \<open>alarm_current_overload\<close> and \<open>has_alarm\<close> and no other flag,
  decoding 0 gives no flag and no \<open>has_alarm\<close>. Nothing is stated about the HeatTag
  flags on other inputs.
\<close>

theorem AlarmStatus_decode:
  fixes w :: "16 word"
  shows "(\<exists>a. AlarmStatus_init (Some (uint w)) = Inr a
      \<and> alarm_voltage_loss a = bit w 0
      \<and> alarm_current_overload a = bit w 1
      \<and> alarm_overload_45_percent a = bit w 3
      \<and> alarm_load_current_loss a = bit w 4
      \<and> alarm_overvoltage a = bit w 5
      \<and> alarm_undervoltage a = bit w 6
      \<and> has_alarm a = (alarm_voltage_loss a \<or> alarm_current_overload a \<or> bit w 2
            \<or> alarm_overload_45_percent a \<or> alarm_load_current_loss a
            \<or> alarm_overvoltage a \<or> alarm_undervoltage a \<or> bit w 7))
    \<and> AlarmStatus_init (Some 3) = Inr \<lparr> has_alarm = True,
          alarm_voltage_loss = True, alarm_current_overload = True,
          alarm_overload_45_percent = False, alarm_load_current_loss = False,
          alarm_overvoltage = False, alarm_undervoltage = False,
          alarm_heattag_alarm = False, alarm_heattag_maintenance = False,
          alarm_heattag_replacement = False \<rparr>
    \<and> AlarmStatus_init (Some 0) = Inr \<lparr> has_alarm = False,
          alarm_voltage_loss = False, alarm_current_overload = False,
          alarm_overload_45_percent = False, alarm_load_current_loss = False,
          alarm_overvoltage = False, alarm_undervoltage = False,
          alarm_heattag_alarm = False, alarm_heattag_maintenance = False,
          alarm_heattag_replacement = False \<rparr>"
proof -
  have three: "AlarmStatus_init (Some 3) = Inr \<lparr> has_alarm = True,
          alarm_voltage_loss = True, alarm_current_overload = True,
          alarm_overload_45_percent = False, alarm_load_current_loss = False,
          alarm_overvoltage = False, alarm_undervoltage = False,
          alarm_heattag_alarm = False, alarm_heattag_maintenance = False,
          alarm_heattag_replacement = False \<rparr>"
    by (simp add: AlarmStatus_init_def)
  have zero: "AlarmStatus_init (Some 0) = Inr \<lparr> has_alarm = False,
          alarm_voltage_loss = False, alarm_current_overload = False,
          alarm_overload_45_percent = False, alarm_load_current_loss = False,
          alarm_overvoltage = False, alarm_undervoltage = False,
          alarm_heattag_alarm = False, alarm_heattag_maintenance = False,
          alarm_heattag_replacement = False \<rparr>"
    by (simp add: AlarmStatus_init_def)
  from AlarmStatus_low_flags [of w] three zero show ?thesis by blast
qed

subsection \<open>C6: sentinels of the unsigned decodes\<close>

text \<open>
  C6: with a unit identifier that passes the assertion and a response of the right
  number of words, each unsigned read composes the words most significant first and
  returns \<open>None\<close> exactly when the composed value is the sentinel of its width
  (\<open>0xFFFF\<close>, \<open>0x80000000\<close>, \<open>0x8000000000000000\<close>), and the composed value otherwise.
\<close>

theorem unsigned_decodes_sentinel:
  assumes "unit_ok unit"
  shows "(dev h (ReadHolding address 1 unit) = Registers [r] \<longrightarrow>
            read_int_16 dev address unit h =
              (Inr (if uint r = 0xFFFF then None else Some (uint r)),
               h @ [ReadHolding address 1 unit]))
       \<and> (dev h (ReadHolding address 2 unit) = Registers [r1, r0] \<longrightarrow>
            read_int_32 dev address unit h =
              (Inr (if uint r1 * 2 ^ 16 + uint r0 = 0x80000000 then None
                    else Some (uint r1 * 2 ^ 16 + uint r0)),
               h @ [ReadHolding address 2 unit]))
       \<and> (dev h (ReadHolding address 4 unit) = Registers [q3, q2, q1, q0] \<longrightarrow>
            read_int_64 dev address unit h =
              (Inr (if uint q3 * 2 ^ 48 + uint q2 * 2 ^ 32 + uint q1 * 2 ^ 16 + uint q0
                         = 0x8000000000000000 then None
                    else Some (uint q3 * 2 ^ 48 + uint q2 * 2 ^ 32 + uint q1 * 2 ^ 16 + uint q0)),
               h @ [ReadHolding address 4 unit]))"
proof (intro conjI impI)
  assume a: "dev h (ReadHolding address 1 unit) = Registers [r]"
  have "read_int_16 dev address unit h =
          (Inr (if uint r \<noteq> 0xFFFF then Some (uint r) else None),
           h @ [ReadHolding address 1 unit])"
    using assms a by (rule read_int_16_Registers)
  then show "read_int_16 dev address unit h =
          (Inr (if uint r = 0xFFFF then None else Some (uint r)),
           h @ [ReadHolding address 1 unit])"
    by (cases "uint r = 0xFFFF") simp_all
next
  assume a: "dev h (ReadHolding address 2 unit) = Registers [r1, r0]"
  have "read_int_32 dev address unit h =
          (Inr (if uint r1 * 65536 + uint r0 \<noteq> 0x80000000
                then Some (uint r1 * 65536 + uint r0) else None),
           h @ [ReadHolding address 2 unit])"
    using assms a by (rule read_int_32_Registers)
  then show "read_int_32 dev address unit h =
          (Inr (if uint r1 * 2 ^ 16 + uint r0 = 0x80000000 then None
                else Some (uint r1 * 2 ^ 16 + uint r0)),
           h @ [ReadHolding address 2 unit])"
    by (cases "uint r1 * 65536 + uint r0 = 0x80000000") simp_all
next
  assume a: "dev h (ReadHolding address 4 unit) = Registers [q3, q2, q1, q0]"
  have e: "uint q3 * 2 ^ 48 + uint q2 * 2 ^ 32 + uint q1 * 2 ^ 16 + uint q0
           = ((uint q3 * 65536 + uint q2) * 65536 + uint q1) * 65536 + uint q0"
    by (simp add: algebra_simps)
  have "read_int_64 dev address unit h =
          (Inr (if ((uint q3 * 65536 + uint q2) * 65536 + uint q1) * 65536 + uint q0
                     \<noteq> 0x8000000000000000
                then Some (((uint q3 * 65536 + uint q2) * 65536 + uint q1) * 65536 + uint q0)
                else None),
           h @ [ReadHolding address 4 unit])"
    using assms a by (rule read_int_64_Registers)
  then show "read_int_64 dev address unit h =
          (Inr (if uint q3 * 2 ^ 48 + uint q2 * 2 ^ 32 + uint q1 * 2 ^ 16 + uint q0
                     = 0x8000000000000000 then None
                else Some (uint q3 * 2 ^ 48 + uint q2 * 2 ^ 32 + uint q1 * 2 ^ 16 + uint q0)),
           h @ [ReadHolding address 4 unit])"
    unfolding e
    by (cases "((uint q3 * 65536 + uint q2) * 65536 + uint q1) * 65536 + uint q0
                = 0x8000000000000000") simp_all
qed

text \<open>
  The theorem at unit 1, on a device that answers with the three sentinels and on one
  that answers with ordinary values.
\<close>

theorem unsigned_decodes_sentinel_witness:
  "unit_ok 1
   \<and> sentinel_device [] (ReadHolding 0x7929 1 1) = Registers [0xFFFF]
   \<and> sentinel_device [] (ReadHolding 0x7929 2 1) = Registers [0x8000, 0x0000]
   \<and> sentinel_device [] (ReadHolding 0x7929 4 1) = Registers [0x8000, 0x0000, 0x0000, 0x0000]
   \<and> read_int_16 sentinel_device 0x7929 1 [] = (Inr None, [ReadHolding 0x7929 1 1])
   \<and> read_int_32 sentinel_device 0x7929 1 [] = (Inr None, [ReadHolding 0x7929 2 1])
   \<and> read_int_64 sentinel_device 0x7929 1 [] = (Inr None, [ReadHolding 0x7929 4 1])
   \<and> counting_device [] (ReadHolding 0x7929 1 1) = Registers [0x1234]
   \<and> counting_device [] (ReadHolding 0x7929 2 1) = Registers [0x0001, 0x0002]
   \<and> counting_device [] (ReadHolding 0x7929 4 1) = Registers [0x0001, 0x0002, 0x0003, 0x0004]
   \<and> read_int_16 counting_device 0x7929 1 [] = (Inr (Some 0x1234), [ReadHolding 0x7929 1 1])
   \<and> read_int_32 counting_device 0x7929 1 [] = (Inr (Some 0x00010002), [ReadHolding 0x7929 2 1])
   \<and> read_int_64 counting_device 0x7929 1 [] =
        (Inr (Some 0x0001000200030004), [ReadHolding 0x7929 4 1])"
proof -
  have u: "unit_ok 1" by (simp add: unit_ok_def)
  have s1: "sentinel_device [] (ReadHolding 0x7929 1 1) = Registers [0xFFFF]"
    and s2: "sentinel_device [] (ReadHolding 0x7929 2 1) = Registers [0x8000, 0x0000]"
    and s4: "sentinel_device [] (ReadHolding 0x7929 4 1)
             = Registers [0x8000, 0x0000, 0x0000, 0x0000]"
    by (simp_all add: sentinel_device_def)
  have c1: "counting_device [] (ReadHolding 0x7929 1 1) = Registers [0x1234]"
    and c2: "counting_device [] (ReadHolding 0x7929 2 1) = Registers [0x0001, 0x0002]"
    and c4: "counting_device [] (ReadHolding 0x7929 4 1)
             = Registers [0x0001, 0x0002, 0x0003, 0x0004]"
    by (simp_all add: counting_device_def)
  note s = unsigned_decodes_sentinel [OF u, of sentinel_device "[]" "0x7929"
      "0xFFFF" "0x8000" "0" "0x8000" "0" "0" "0"]
  note c = unsigned_decodes_sentinel [OF u, of counting_device "[]" "0x7929"
      "0x1234" "1" "2" "1" "2" "3" "4"]
  show ?thesis
    using u s1 s2 s4 c1 c2 c4 s c by simp
qed

subsection \<open>C7: 16-bit round trip\<close>

lemma uint_word16_of_int:
  assumes "0 \<le> v" and "v \<le> 0xFFFF"
  shows "uint (word_of_int v :: 16 word) = v"
proof -
  have "uint (word_of_int v :: 16 word) = take_bit 16 v"
    by (simp add: uint_word_of_int_eq)
  also have "\<dots> = v"
    using assms by (intro take_bit_int_eq_self) simp_all
  finally show ?thesis .
qed

lemma to_registers_add_16bit_uint:
  assumes "0 \<le> v" and "v \<le> 0xFFFF"
  shows "add_16bit_uint v = Inr [word_of_int (v div 256), word_of_int (v mod 256)]"
    and "to_registers [word_of_int (v div 256) :: 8 word, word_of_int (v mod 256)]
         = [word_of_int v]"
proof -
  show "add_16bit_uint v = Inr [word_of_int (v div 256), word_of_int (v mod 256)]"
    using assms by (simp add: add_16bit_uint_def)
  have lt: "v div 256 < 2 ^ 8" using assms by simp
  have ge: "0 \<le> v div 256" using assms by (simp add: pos_imp_zdiv_nonneg_iff)
  have hi: "uint (word_of_int (v div 256) :: 8 word) = v div 256"
  proof -
    have "uint (word_of_int (v div 256) :: 8 word) = take_bit 8 (v div 256)"
      by (simp add: uint_word_of_int_eq)
    also have "\<dots> = v div 256" using ge lt by (rule take_bit_int_eq_self)
    finally show ?thesis .
  qed
  have lo: "uint (word_of_int (v mod 256) :: 8 word) = v mod 256"
  proof -
    have "uint (word_of_int (v mod 256) :: 8 word) = take_bit 8 (v mod 256)"
      by (simp add: uint_word_of_int_eq)
    also have "\<dots> = v mod 256" by (rule take_bit_int_eq_self) simp_all
    finally show ?thesis .
  qed
  have "uint (word_of_int (v div 256) :: 8 word) * 256 + uint (word_of_int (v mod 256) :: 8 word)
        = v"
    by (simp only: hi lo div_mult_mod_eq)
  then show "to_registers [word_of_int (v div 256) :: 8 word, word_of_int (v mod 256)]
         = [word_of_int v]"
    by (simp only: to_registers.simps)
qed

text \<open>
  C7: for a value \<open>v\<close> in \<open>0..0xFFFF\<close> and a unit identifier that passes the
  assertion, \<^verbatim>\<open>__write_int_16\<close> issues one write whose single register word is
  \<open>v\<close>, and \<^verbatim>\<open>__read_int_16\<close> of a response holding that word returns \<open>v\<close> when
  \<open>v \<noteq> 0xFFFF\<close> and \<open>None\<close> when \<open>v = 0xFFFF\<close>: the encoder emits the sentinel word for
  \<open>0xFFFF\<close> and the decoder reads it as absent.
\<close>

theorem int_16_round_trip:
  assumes "unit_ok unit" and "0 \<le> v" and "v \<le> 0xFFFF"
  shows "write_int_16 dev address unit v h
           = (Inr (), h @ [WriteRegisters address [word_of_int v] unit])
       \<and> (dev' h' (ReadHolding address 1 unit) = Registers [word_of_int v] \<longrightarrow>
            read_int_16 dev' address unit h' =
              (Inr (if v = 0xFFFF then None else Some v), h' @ [ReadHolding address 1 unit]))"
proof (intro conjI impI)
  show "write_int_16 dev address unit v h
           = (Inr (), h @ [WriteRegisters address [word_of_int v] unit])"
    unfolding write_int_16_def
    using assms(1)
    by (simp only: to_registers_add_16bit_uint [OF assms(2,3)] write_regs_def sum.case
        not_True_eq_False if_False simp_thms)
next
  assume a: "dev' h' (ReadHolding address 1 unit) = Registers [word_of_int v]"
  have "read_int_16 dev' address unit h' =
          (Inr (if uint (word_of_int v :: 16 word) \<noteq> 0xFFFF
                then Some (uint (word_of_int v :: 16 word)) else None),
           h' @ [ReadHolding address 1 unit])"
    using assms(1) a by (rule read_int_16_Registers)
  then show "read_int_16 dev' address unit h' =
              (Inr (if v = 0xFFFF then None else Some v), h' @ [ReadHolding address 1 unit])"
    unfolding uint_word16_of_int [OF assms(2,3)]
    by (cases "v = 0xFFFF") simp_all
qed

text \<open>The theorem at unit 7, for the value \<open>0x1234\<close> and for the sentinel \<open>0xFFFF\<close>.\<close>

theorem int_16_round_trip_witness:
  "unit_ok 7 \<and> (0::int) \<le> 0x1234 \<and> (0x1234::int) \<le> 0xFFFF
   \<and> constant_device [0x1234] [] (ReadHolding 0x792E 1 7) = Registers [word_of_int 0x1234]
   \<and> write_int_16 silent_device 0x792E 7 0x1234 []
        = (Inr (), [WriteRegisters 0x792E [0x1234] 7])
   \<and> read_int_16 (constant_device [0x1234]) 0x792E 7 []
        = (Inr (Some 0x1234), [ReadHolding 0x792E 1 7])
   \<and> (0::int) \<le> 0xFFFF \<and> (0xFFFF::int) \<le> 0xFFFF
   \<and> constant_device [0xFFFF] [] (ReadHolding 0x792E 1 7) = Registers [word_of_int 0xFFFF]
   \<and> write_int_16 silent_device 0x792E 7 0xFFFF []
        = (Inr (), [WriteRegisters 0x792E [0xFFFF] 7])
   \<and> read_int_16 (constant_device [0xFFFF]) 0x792E 7 []
        = (Inr None, [ReadHolding 0x792E 1 7])"
proof -
  have u: "unit_ok 7" by (simp add: unit_ok_def)
  have d1: "constant_device [0x1234] [] (ReadHolding 0x792E 1 7) = Registers [word_of_int 0x1234]"
    by (simp add: constant_device_def)
  have d2: "constant_device [0xFFFF] [] (ReadHolding 0x792E 1 7) = Registers [word_of_int 0xFFFF]"
    by (simp add: constant_device_def)
  have b1: "(0::int) \<le> 0x1234" "(0x1234::int) \<le> 0xFFFF" by simp_all
  have b2: "(0::int) \<le> 0xFFFF" "(0xFFFF::int) \<le> 0xFFFF" by simp_all
  note r1 = int_16_round_trip [OF u b1, of silent_device "0x792E" "[]"
      "constant_device [0x1234]" "[]"]
  note r2 = int_16_round_trip [OF u b2, of silent_device "0x792E" "[]"
      "constant_device [0xFFFF]" "[]"]
  show ?thesis using u d1 d2 r1 r2 by simp
qed

subsection \<open>C10: alarm validity on the absence sentinel\<close>

text \<open>
  C10: when the register at \<open>0xCE1\<close> reads \<open>0xFFFF\<close>, \<^verbatim>\<open>__read_int_16\<close> returns
  \<open>None\<close> and \<^verbatim>\<open>tag_is_alarm_valid\<close> raises \<^verbatim>\<open>TypeError\<close> on \<^verbatim>\<open>None & 0b1\<close>: it
  returns neither a boolean nor \<open>None\<close>.
\<close>

theorem alarm_valid_sentinel_faults:
  assumes "unit_ok power_tag_index"
    and "dev h (ReadHolding 0xCE1 1 power_tag_index) = Registers [0xFFFF]"
  shows "read_int_16 dev 0xCE1 power_tag_index h
           = (Inr None, h @ [ReadHolding 0xCE1 1 power_tag_index])
       \<and> tag_is_alarm_valid dev power_tag_index h
           = (Inl TypeError, h @ [ReadHolding 0xCE1 1 power_tag_index])"
proof -
  have "read_int_16 dev 0xCE1 power_tag_index h =
          (Inr (if uint (0xFFFF :: 16 word) \<noteq> 0xFFFF then Some (uint (0xFFFF :: 16 word))
                else None),
           h @ [ReadHolding 0xCE1 1 power_tag_index])"
    using assms by (rule read_int_16_Registers)
  then have r: "read_int_16 dev 0xCE1 power_tag_index h
           = (Inr None, h @ [ReadHolding 0xCE1 1 power_tag_index])"
    by simp
  then show ?thesis
    by (simp add: tag_is_alarm_valid_def on_result_def and_then_def)
qed

text \<open>The theorem at unit 1, on a device whose every register reads \<open>0xFFFF\<close>.\<close>

theorem alarm_valid_sentinel_faults_witness:
  "unit_ok 1
   \<and> constant_device [0xFFFF] [] (ReadHolding 0xCE1 1 1) = Registers [0xFFFF]
   \<and> read_int_16 (constant_device [0xFFFF]) 0xCE1 1 [] = (Inr None, [ReadHolding 0xCE1 1 1])
   \<and> tag_is_alarm_valid (constant_device [0xFFFF]) 1 [] = (Inl TypeError, [ReadHolding 0xCE1 1 1])"
proof -
  have u: "unit_ok 1" by (simp add: unit_ok_def)
  have d: "constant_device [0xFFFF] [] (ReadHolding 0xCE1 1 1) = Registers [0xFFFF]"
    by (simp add: constant_device_def)
  from alarm_valid_sentinel_faults
      [where dev = "constant_device [0xFFFF]" and h = "[]" and power_tag_index = 1, OF u d] u d
  show ?thesis by simp
qed

subsection \<open>C8: enumeration decoding\<close>

lemma DeviceUsage_value_range:
  "DeviceUsage_value m = Some c \<Longrightarrow> 1 \<le> c \<and> c \<le> 21"
  by (cases m) simp_all

lemma DeviceUsage_call_unmapped:
  assumes "\<not> (1 \<le> c \<and> c \<le> 21)"
  shows "DeviceUsage_call (Some c) = Inl ValueError"
proof -
  have "find (\<lambda>m. DeviceUsage_value m = Some c) DeviceUsage_members = None"
    using assms DeviceUsage_value_range [of _ c] by (auto simp add: find_None_iff)
  then show ?thesis by (simp add: DeviceUsage_call_def)
qed

lemma DeviceUsage_call_other: "DeviceUsage_call (Some 21) = Inr other"
  by (simp add: DeviceUsage_call_def DeviceUsage_members_def)

lemma DeviceUsage_call_None: "DeviceUsage_call None = Inr INVALID"
  by (simp add: DeviceUsage_call_def DeviceUsage_members_def)

lemma product_filter_unmapped:
  assumes "code \<notin> Some ` fst ` ProductType_value ` set ProductType_members"
  shows "filter (\<lambda>p. Some (fst (ProductType_value p)) = code) ProductType_members = []"
  using assms by (auto simp add: filter_empty_conv)


lemma tag_product_type_Registers:
  assumes "unit_ok power_tag_index"
    and "dev h (ReadHolding 0x7930 1 power_tag_index) = Registers [r]"
  shows "tag_product_type dev power_tag_index h =
     (Inr (case filter (\<lambda>p. Some (fst (ProductType_value p))
                              = (if uint r \<noteq> 0xFFFF then Some (uint r) else None))
                  ProductType_members of
             [] \<Rightarrow> None | p # _ \<Rightarrow> Some p),
      h @ [ReadHolding 0x7930 1 power_tag_index])"
proof -
  have "read_int_16 dev 0x7930 power_tag_index h =
          (Inr (if uint r \<noteq> 0xFFFF then Some (uint r) else None),
           h @ [ReadHolding 0x7930 1 power_tag_index])"
    using assms by (rule read_int_16_Registers)
  then show ?thesis
    unfolding tag_product_type_def on_result_def and_then_def Let_def
    by (simp only: prod.case sum.case)
qed

lemma tag_usage_Registers:
  assumes "unit_ok power_tag_index"
    and "dev h (ReadHolding 0x7925 1 power_tag_index) = Registers [r]"
  shows "tag_usage dev power_tag_index h =
     (DeviceUsage_call (if uint r \<noteq> 0xFFFF then Some (uint r) else None),
      h @ [ReadHolding 0x7925 1 power_tag_index])"
proof -
  have "read_int_16 dev 0x7925 power_tag_index h =
          (Inr (if uint r \<noteq> 0xFFFF then Some (uint r) else None),
           h @ [ReadHolding 0x7925 1 power_tag_index])"
    using assms by (rule read_int_16_Registers)
  then show ?thesis
    unfolding tag_usage_def on_result_def and_then_def
    by (simp only: prod.case sum.case)
qed

text \<open>
  C8: with a unit identifier that passes the assertion, \<^verbatim>\<open>tag_product_type\<close> returns
  \<open>LV434020\<close> for code 92 and \<open>None\<close>, without raising, for a code that no member of
  \<open>ProductType\<close> carries; \<^verbatim>\<open>tag_usage\<close> returns \<open>other\<close> for code 21, \<open>INVALID\<close> when the
  register reads the sentinel \<open>0xFFFF\<close> (which \<^verbatim>\<open>__read_int_16\<close> turns into \<open>None\<close>, the
  value of \<open>INVALID\<close>), and raises \<^verbatim>\<open>ValueError\<close> for every other code outside
  \<open>1..21\<close>.
\<close>

theorem enum_decode_policies:
  assumes "unit_ok power_tag_index"
  shows "(dev h (ReadHolding 0x7930 1 power_tag_index) = Registers [r] \<longrightarrow>
            (uint r = 92 \<longrightarrow>
               tag_product_type dev power_tag_index h =
                 (Inr (Some LV434020), h @ [ReadHolding 0x7930 1 power_tag_index]))
          \<and> (uint r \<notin> fst ` ProductType_value ` set ProductType_members \<longrightarrow>
               tag_product_type dev power_tag_index h =
                 (Inr None, h @ [ReadHolding 0x7930 1 power_tag_index])))
       \<and> (dev h (ReadHolding 0x7925 1 power_tag_index) = Registers [q] \<longrightarrow>
            (uint q = 21 \<longrightarrow>
               tag_usage dev power_tag_index h =
                 (Inr other, h @ [ReadHolding 0x7925 1 power_tag_index]))
          \<and> (uint q = 0xFFFF \<longrightarrow>
               tag_usage dev power_tag_index h =
                 (Inr INVALID, h @ [ReadHolding 0x7925 1 power_tag_index]))
          \<and> (\<not> (1 \<le> uint q \<and> uint q \<le> 21) \<and> uint q \<noteq> 0xFFFF \<longrightarrow>
               tag_usage dev power_tag_index h =
                 (Inl ValueError, h @ [ReadHolding 0x7925 1 power_tag_index])))"
proof (intro conjI impI)
  assume a: "dev h (ReadHolding 0x7930 1 power_tag_index) = Registers [r]" and c: "uint r = 92"
  show "tag_product_type dev power_tag_index h =
          (Inr (Some LV434020), h @ [ReadHolding 0x7930 1 power_tag_index])"
    unfolding tag_product_type_Registers [where dev = dev and h = h, OF assms a] c
    by (simp add: ProductType_members_def)
next
  assume a: "dev h (ReadHolding 0x7930 1 power_tag_index) = Registers [r]"
    and c: "uint r \<notin> fst ` ProductType_value ` set ProductType_members"
  have "(if uint r \<noteq> 0xFFFF then Some (uint r) else None)
          \<notin> Some ` fst ` ProductType_value ` set ProductType_members"
    using c by auto
  then have "filter (\<lambda>p. Some (fst (ProductType_value p))
                              = (if uint r \<noteq> 0xFFFF then Some (uint r) else None))
                  ProductType_members = []"
    by (rule product_filter_unmapped)
  then show "tag_product_type dev power_tag_index h =
          (Inr None, h @ [ReadHolding 0x7930 1 power_tag_index])"
    unfolding tag_product_type_Registers [where dev = dev and h = h, OF assms a] by (simp only: list.case)
next
  assume a: "dev h (ReadHolding 0x7925 1 power_tag_index) = Registers [q]" and c: "uint q = 21"
  show "tag_usage dev power_tag_index h =
          (Inr other, h @ [ReadHolding 0x7925 1 power_tag_index])"
    unfolding tag_usage_Registers [where dev = dev and h = h, OF assms a] c
    by (simp add: DeviceUsage_call_other)
next
  assume a: "dev h (ReadHolding 0x7925 1 power_tag_index) = Registers [q]"
    and c: "uint q = 0xFFFF"
  show "tag_usage dev power_tag_index h =
          (Inr INVALID, h @ [ReadHolding 0x7925 1 power_tag_index])"
    unfolding tag_usage_Registers [where dev = dev and h = h, OF assms a] c
    by (simp add: DeviceUsage_call_None)
next
  assume a: "dev h (ReadHolding 0x7925 1 power_tag_index) = Registers [q]"
    and c: "\<not> (1 \<le> uint q \<and> uint q \<le> 21) \<and> uint q \<noteq> 0xFFFF"
  then have "DeviceUsage_call (if uint q \<noteq> 0xFFFF then Some (uint q) else None)
             = Inl ValueError"
    using DeviceUsage_call_unmapped [of "uint q"] by simp
  then show "tag_usage dev power_tag_index h =
          (Inl ValueError, h @ [ReadHolding 0x7925 1 power_tag_index])"
    unfolding tag_usage_Registers [where dev = dev and h = h, OF assms a] by simp
qed


text \<open>The theorem at unit 3, on devices whose registers read 92, 21 and \<open>0xFFFF\<close>.\<close>

theorem enum_decode_policies_witness:
  "unit_ok 3
   \<and> constant_device [92] [] (ReadHolding 0x7930 1 3) = Registers [92]
   \<and> constant_device [92] [] (ReadHolding 0x7925 1 3) = Registers [92]
   \<and> uint (92 :: 16 word) = 92
   \<and> \<not> (1 \<le> uint (92 :: 16 word) \<and> uint (92 :: 16 word) \<le> 21) \<and> uint (92 :: 16 word) \<noteq> 0xFFFF
   \<and> tag_product_type (constant_device [92]) 3 [] = (Inr (Some LV434020), [ReadHolding 0x7930 1 3])
   \<and> tag_usage (constant_device [92]) 3 [] = (Inl ValueError, [ReadHolding 0x7925 1 3])
   \<and> constant_device [21] [] (ReadHolding 0x7930 1 3) = Registers [21]
   \<and> constant_device [21] [] (ReadHolding 0x7925 1 3) = Registers [21]
   \<and> uint (21 :: 16 word) = 21
   \<and> uint (21 :: 16 word) \<notin> fst ` ProductType_value ` set ProductType_members
   \<and> tag_product_type (constant_device [21]) 3 [] = (Inr None, [ReadHolding 0x7930 1 3])
   \<and> tag_usage (constant_device [21]) 3 [] = (Inr other, [ReadHolding 0x7925 1 3])
   \<and> constant_device [0xFFFF] [] (ReadHolding 0x7925 1 3) = Registers [0xFFFF]
   \<and> uint (0xFFFF :: 16 word) = 0xFFFF
   \<and> tag_usage (constant_device [0xFFFF]) 3 [] = (Inr INVALID, [ReadHolding 0x7925 1 3])"
proof -
  have u: "unit_ok 3" by (simp add: unit_ok_def)
  have d: "constant_device [92] [] (ReadHolding 0x7930 1 3) = Registers [92]"
    "constant_device [92] [] (ReadHolding 0x7925 1 3) = Registers [92]"
    "constant_device [21] [] (ReadHolding 0x7930 1 3) = Registers [21]"
    "constant_device [21] [] (ReadHolding 0x7925 1 3) = Registers [21]"
    "constant_device [0xFFFF] [] (ReadHolding 0x7925 1 3) = Registers [0xFFFF]"
    "constant_device [0xFFFF] [] (ReadHolding 0x7930 1 3) = Registers [0xFFFF]"
    by (simp_all add: constant_device_def)
  have n: "uint (21 :: 16 word) \<notin> fst ` ProductType_value ` set ProductType_members"
    by (simp add: ProductType_members_def)
  note a = enum_decode_policies [where dev = "constant_device [92]" and h = "[]"
      and power_tag_index = 3 and r = 92 and q = 92, OF u]
  note b = enum_decode_policies [where dev = "constant_device [21]" and h = "[]"
      and power_tag_index = 3 and r = 21 and q = 21, OF u]
  note c = enum_decode_policies [where dev = "constant_device [0xFFFF]" and h = "[]"
      and power_tag_index = 3 and r = "0xFFFF" and q = "0xFFFF", OF u]
  show ?thesis using u d n a b c by simp
qed

subsection \<open>C5: synthesis-table unit resolution\<close>

lemma probe_loop_all_fail:
  assumes "\<And>u h'. u \<in> set cs \<Longrightarrow>
             unit_ok u \<and> (\<exists>s. dev h' (ReadHolding 0x0001 1 u) = ExceptionResponse s)"
  shows "probe_loop dev cs h =
           (Inl (ConnectionError ''Could not find synthetic slave ID''),
            h @ map (\<lambda>u. ReadHolding 0x0001 1 u) cs)"
  using assms
proof (induction cs arbitrary: h)
  case Nil
  show ?case by simp
next
  case (Cons c cs)
  from Cons.prems [of c h] obtain s where
    u: "unit_ok c" and e: "dev h (ReadHolding 0x0001 1 c) = ExceptionResponse s"
    by auto
  have r: "read_int_16 dev 0x0001 c h
           = (Inl (ConnectionError s), h @ [ReadHolding 0x0001 1 c])"
    using u e by (rule read_int_16_ExceptionResponse)
  have "probe_loop dev cs (h @ [ReadHolding 0x0001 1 c]) =
          (Inl (ConnectionError ''Could not find synthetic slave ID''),
           (h @ [ReadHolding 0x0001 1 c]) @ map (\<lambda>u. ReadHolding 0x0001 1 u) cs)"
    by (rule Cons.IH) (simp add: Cons.prems)
  then show ?case by (simp add: r)
qed

lemma probe_loop_first_success:
  assumes fail: "\<And>u h'. u \<in> set cs \<Longrightarrow>
             unit_ok u \<and> (\<exists>s. dev h' (ReadHolding 0x0001 1 u) = ExceptionResponse s)"
    and ok: "unit_ok k"
    and answer: "\<And>h'. \<exists>r rs. dev h' (ReadHolding 0x0001 1 k) = Registers (r # rs)"
  shows "probe_loop dev (cs @ k # rest) h =
           (Inr k, h @ map (\<lambda>u. ReadHolding 0x0001 1 u) (cs @ [k]))"
  using fail
proof (induction cs arbitrary: h)
  case Nil
  from answer [of h] obtain r rs where
    a: "dev h (ReadHolding 0x0001 1 k) = Registers (r # rs)" by auto
  have "read_int_16 dev 0x0001 k h =
          (Inr (if uint r \<noteq> 0xFFFF then Some (uint r) else None), h @ [ReadHolding 0x0001 1 k])"
    using ok a by (rule read_int_16_Registers)
  then show ?case by simp
next
  case (Cons c cs)
  from Cons.prems [of c h] obtain s where
    u: "unit_ok c" and e: "dev h (ReadHolding 0x0001 1 c) = ExceptionResponse s"
    by auto
  have r: "read_int_16 dev 0x0001 c h
           = (Inl (ConnectionError s), h @ [ReadHolding 0x0001 1 c])"
    using u e by (rule read_int_16_ExceptionResponse)
  have "probe_loop dev (cs @ k # rest) (h @ [ReadHolding 0x0001 1 c]) =
          (Inr k, (h @ [ReadHolding 0x0001 1 c]) @ map (\<lambda>u. ReadHolding 0x0001 1 u) (cs @ [k]))"
    by (rule Cons.IH) (simp add: Cons.prems)
  then show ?case by (simp add: r)
qed

lemma range_down_split:
  assumes "2 \<le> k" and "k \<le> 247"
  shows "range_down SYNTHESIS_TABLE_SLAVE_ID_START 1 = rev [k + 1 .. 247] @ k # rev [2 .. k - 1]"
proof -
  have "[2 .. 247] = [2 .. k - 1] @ k # [k + 1 .. 247]"
    using assms by (intro upto_split3) simp_all
  then show ?thesis
    by (simp add: range_down_def SYNTHESIS_TABLE_SLAVE_ID_START_def)
qed

lemma rev_upto_snoc:
  assumes "k \<le> 247"
  shows "rev [k + 1 .. 247] @ [k] = rev [k .. 247]"
  using assms by (simp add: upto_rec1 [of k 247])


text \<open>
  C5: \<^verbatim>\<open>find_synthentic_table_slave_id\<close> probes the candidates 247, 246, \<dots>, 2 in
  this order, each with one read of one word at address \<open>0x0001\<close>. If every candidate
  above \<open>k\<close> answers with an exception response and \<open>k\<close> answers with registers, the
  result is \<open>k\<close> and the requests issued are exactly the probes of 247 down to \<open>k\<close>; if
  every candidate answers with an exception response, the result is the
  \<^verbatim>\<open>ConnectionError\<close> raised after the loop (the spec's \<open>SynthesisTableNotFound\<close>) and the
  requests issued are the probes of 247 down to 2.
\<close>

theorem find_synthentic_table_slave_id_result:
  "(2 \<le> k \<and> k \<le> 247
      \<and> (\<forall>u h'. k < u \<and> u \<le> 247 \<longrightarrow>
            (\<exists>s. dev h' (ReadHolding 0x0001 1 u) = ExceptionResponse s))
      \<and> (\<forall>h'. \<exists>r rs. dev h' (ReadHolding 0x0001 1 k) = Registers (r # rs))
    \<longrightarrow> find_synthentic_table_slave_id dev h =
          (Inr k, h @ map (\<lambda>u. ReadHolding 0x0001 1 u) (rev [k .. 247])))
   \<and> ((\<forall>u h'. 2 \<le> u \<and> u \<le> 247 \<longrightarrow>
            (\<exists>s. dev h' (ReadHolding 0x0001 1 u) = ExceptionResponse s))
    \<longrightarrow> find_synthentic_table_slave_id dev h =
          (Inl (ConnectionError ''Could not find synthetic slave ID''),
           h @ map (\<lambda>u. ReadHolding 0x0001 1 u) (rev [2 .. 247])))"
proof (intro conjI impI)
  assume a: "2 \<le> k \<and> k \<le> 247
      \<and> (\<forall>u h'. k < u \<and> u \<le> 247 \<longrightarrow>
            (\<exists>s. dev h' (ReadHolding 0x0001 1 u) = ExceptionResponse s))
      \<and> (\<forall>h'. \<exists>r rs. dev h' (ReadHolding 0x0001 1 k) = Registers (r # rs))"
  then have k: "2 \<le> k" "k \<le> 247" by simp_all
  have fail: "unit_ok u \<and> (\<exists>s. dev h' (ReadHolding 0x0001 1 u) = ExceptionResponse s)"
    if "u \<in> set (rev [k + 1 .. 247])" for u h'
    using that a k by (auto simp add: unit_ok_def)
  have ok: "unit_ok k" using k by (simp add: unit_ok_def)
  have answer: "\<exists>r rs. dev h' (ReadHolding 0x0001 1 k) = Registers (r # rs)" for h'
    using a by blast
  have "probe_loop dev (rev [k + 1 .. 247] @ k # rev [2 .. k - 1]) h =
          (Inr k, h @ map (\<lambda>u. ReadHolding 0x0001 1 u) (rev [k + 1 .. 247] @ [k]))"
    using fail ok answer by (rule probe_loop_first_success)
  then show "find_synthentic_table_slave_id dev h =
          (Inr k, h @ map (\<lambda>u. ReadHolding 0x0001 1 u) (rev [k .. 247]))"
    unfolding find_synthentic_table_slave_id_def range_down_split [OF k]
      rev_upto_snoc [OF k(2)] .
next
  assume a: "\<forall>u h'. 2 \<le> u \<and> u \<le> 247 \<longrightarrow>
            (\<exists>s. dev h' (ReadHolding 0x0001 1 u) = ExceptionResponse s)"
  have fail: "unit_ok u \<and> (\<exists>s. dev h' (ReadHolding 0x0001 1 u) = ExceptionResponse s)"
    if "u \<in> set (rev [2 .. 247])" for u h'
    using that a by (auto simp add: unit_ok_def)
  have "probe_loop dev (rev [2 .. 247]) h =
          (Inl (ConnectionError ''Could not find synthetic slave ID''),
           h @ map (\<lambda>u. ReadHolding 0x0001 1 u) (rev [2 .. 247]))"
    using fail by (rule probe_loop_all_fail)
  then show "find_synthentic_table_slave_id dev h =
          (Inl (ConnectionError ''Could not find synthetic slave ID''),
           h @ map (\<lambda>u. ReadHolding 0x0001 1 u) (rev [2 .. 247]))"
    by (simp add: find_synthentic_table_slave_id_def range_down_def
        SYNTHESIS_TABLE_SLAVE_ID_START_def)
qed

text \<open>
  The theorem on \<open>only_unit_42\<close>, which answers the probe of unit 42 with registers and
  every other request with an exception response, where the result is 42 after the
  probes of 247 down to 42; and on \<open>silent_device\<close>, which never answers.
\<close>

theorem find_synthentic_table_slave_id_result_witness:
  "find_synthentic_table_slave_id only_unit_42 [] =
        (Inr 42, map (\<lambda>u. ReadHolding 0x0001 1 u) (rev [42 .. 247]))
   \<and> find_synthentic_table_slave_id silent_device [] =
        (Inl (ConnectionError ''Could not find synthetic slave ID''),
         map (\<lambda>u. ReadHolding 0x0001 1 u) (rev [2 .. 247]))"
proof -
  have f: "\<forall>u h'. 42 < u \<and> u \<le> 247 \<longrightarrow>
         (\<exists>s. only_unit_42 h' (ReadHolding 0x0001 1 u) = ExceptionResponse s)"
    by (simp add: only_unit_42_def)
  have g: "\<forall>h'. \<exists>r rs. only_unit_42 h' (ReadHolding 0x0001 1 42) = Registers (r # rs)"
    by (simp add: only_unit_42_def)
  have n: "\<forall>u h'. 2 \<le> u \<and> u \<le> 247 \<longrightarrow>
         (\<exists>s. silent_device h' (ReadHolding 0x0001 1 u) = ExceptionResponse s)"
    by (simp add: silent_device_def)
  have p: "(2::int) \<le> 42 \<and> (42::int) \<le> 247
      \<and> (\<forall>u h'. 42 < u \<and> u \<le> 247 \<longrightarrow>
            (\<exists>s. only_unit_42 h' (ReadHolding 0x0001 1 u) = ExceptionResponse s))
      \<and> (\<forall>h'. \<exists>r rs. only_unit_42 h' (ReadHolding 0x0001 1 42) = Registers (r # rs))"
    using f g by simp
  have a: "find_synthentic_table_slave_id only_unit_42 [] =
        (Inr 42, [] @ map (\<lambda>u. ReadHolding 0x0001 1 u) (rev [42 .. 247]))"
    using find_synthentic_table_slave_id_result
      [where k = 42 and dev = only_unit_42 and h = "[]", THEN conjunct1] p
    by (rule mp)
  have b: "find_synthentic_table_slave_id silent_device [] =
        (Inl (ConnectionError ''Could not find synthetic slave ID''),
         [] @ map (\<lambda>u. ReadHolding 0x0001 1 u) (rev [2 .. 247]))"
    using find_synthentic_table_slave_id_result
      [where k = 42 and dev = silent_device and h = "[]", THEN conjunct2] n
    by (rule mp)
  have a': "find_synthentic_table_slave_id only_unit_42 [] =
        (Inr 42, map (\<lambda>u. ReadHolding 0x0001 1 u) (rev [42 .. 247]))"
    using a by (simp only: append_Nil)
  have b': "find_synthentic_table_slave_id silent_device [] =
        (Inl (ConnectionError ''Could not find synthetic slave ID''),
         map (\<lambda>u. ReadHolding 0x0001 1 u) (rev [2 .. 247]))"
    using b by (simp only: append_Nil)
  from a' b' show ?thesis by (intro conjI)
qed

subsection \<open>C2: string decode\<close>

text \<open>
  The part of C2 that the code does: a response with zero bytes between the letters
  decodes to the letters alone (\<open>AB\<close>, two zero bytes, \<open>CD\<close> gives \<open>ABCD\<close>).
\<close>

lemma read_string_embedded_zeros:
  "read_string (constant_device [0x4142, 0x0000, 0x4344]) 0x7922 3 1 6 []
     = (Inr (Some [0x41, 0x42, 0x43, 0x44]), [ReadHolding 0x7922 3 1])"
  by (simp add: read_string_def read_def constant_device_def decoder_def
      decode_string_def and_cons_def)

text \<open>
  C2 at an all-zero response: \<^verbatim>\<open>tag_circuit\<close> (3 registers, 5 bytes) returns the empty
  string, not \<open>None\<close>. The test \<^verbatim>\<open>all(c == '\x00' for c in ascii_bytes)\<close> compares
  integers with a string and is false on every non-empty \<^verbatim>\<open>bytes\<close>.
\<close>

theorem read_string_all_zero_not_absent:
  "tag_circuit (constant_device [0x0000, 0x0000, 0x0000]) 1 []
     = (Inr (Some []), [ReadHolding 0x7922 3 1])"
  by (simp add: tag_circuit_def read_string_def read_def constant_device_def decoder_def
      decode_string_def)

subsection \<open>C3: packed date-time\<close>

text \<open>
  The parts of C3 that the code does: four words \<open>0xFFFF\<close> decode to \<open>None\<close>, and a
  field out of calendar range (month 13) raises \<^verbatim>\<open>ValueError\<close>, the spec's
  \<open>InvalidTimestamp\<close>.
\<close>

lemma read_date_time_absent:
  "read_date_time (constant_device [0xFFFF, 0xFFFF, 0xFFFF, 0xFFFF]) 0x0073 255 []
     = (Inr None, [ReadHolding 0x0073 4 255])"
proof -
  have r: "read (constant_device [0xFFFF, 0xFFFF, 0xFFFF, 0xFFFF]) 0x0073 4 255 []
           = (Inr [0xFFFF, 0xFFFF, 0xFFFF, 0xFFFF], [ReadHolding 0x0073 4 255])"
    by (simp add: read_def constant_device_def)
  have d: "decode_date_time (decoder [0xFFFF, 0xFFFF, 0xFFFF, 0xFFFF])
           = date_time_fields 0xFFFF 0xFFFF 0xFFFF 0xFFFF"
    by (simp add: decode_date_time_def decode_16bit_uint_decoder and_then_def)
  have f: "date_time_fields 0xFFFF 0xFFFF 0xFFFF 0xFFFF = Inr None"
    by (simp add: date_time_fields_def)
  show ?thesis by (simp add: read_date_time_def r d f)
qed

lemma read_date_time_month_13:
  "read_date_time (constant_device [24, 0x0D05, 0x0A1E, 0x0E74]) 0x0073 255 []
     = (Inl ValueError, [ReadHolding 0x0073 4 255])"
proof -
  have r: "read (constant_device [24, 0x0D05, 0x0A1E, 0x0E74]) 0x0073 4 255 []
           = (Inr [24, 0x0D05, 0x0A1E, 0x0E74], [ReadHolding 0x0073 4 255])"
    by (simp add: read_def constant_device_def)
  have d: "decode_date_time (decoder [24, 0x0D05, 0x0A1E, 0x0E74])
           = date_time_fields 24 0x0D05 0x0A1E 0x0E74"
    by (simp add: decode_date_time_def decode_16bit_uint_decoder and_then_def)
  have f: "date_time_fields 24 0x0D05 0x0A1E 0x0E74 = Inl ValueError"
    by (simp add: date_time_fields_def datetime_new_def days_in_month_def and_then_def
        drop_bit_eq_div)
  show ?thesis by (simp add: read_date_time_def r d f)
qed

text \<open>
  C3 at the words \<open>(24, 0x0105, 0x0A1E, 0x0E74)\<close>: the date-time returned is
  2024-01-05 10:30:03 with microsecond 700, that is 0.7 ms, not millisecond 700: the
  local \<^verbatim>\<open>millisecond\<close> is passed to the microsecond parameter of \<^verbatim>\<open>datetime\<close>.
\<close>

theorem date_time_millisecond_as_microsecond:
  "date_time (constant_device [24, 0x0105, 0x0A1E, 0x0E74]) []
     = (Inr (Some \<lparr> dt_year = 2024, dt_month = 1, dt_day = 5, dt_hour = 10, dt_minute = 30,
                     dt_second = 3, dt_microsecond = 700 \<rparr>),
        [ReadHolding 0x0073 4 255])"
proof -
  have r: "read (constant_device [24, 0x0105, 0x0A1E, 0x0E74]) 0x0073 4 255 []
           = (Inr [24, 0x0105, 0x0A1E, 0x0E74], [ReadHolding 0x0073 4 255])"
    by (simp add: read_def constant_device_def)
  have d: "decode_date_time (decoder [24, 0x0105, 0x0A1E, 0x0E74])
           = date_time_fields 24 0x0105 0x0A1E 0x0E74"
    by (simp add: decode_date_time_def decode_16bit_uint_decoder and_then_def)
  have f: "date_time_fields 24 0x0105 0x0A1E 0x0E74
           = Inr (Some \<lparr> dt_year = 2024, dt_month = 1, dt_day = 5, dt_hour = 10,
                           dt_minute = 30, dt_second = 3, dt_microsecond = 700 \<rparr>)"
    by (simp add: date_time_fields_def datetime_new_def days_in_month_def and_then_def
        drop_bit_eq_div)
  show ?thesis
    by (simp add: date_time_def POWERTAG_LINK_SLAVE_ID_def read_date_time_def r d f)
qed

subsection \<open>C4: validation of the unit identifier\<close>

text \<open>
  \<^verbatim>\<open>__read_string\<close> and \<^verbatim>\<open>__read_date_time\<close> issue their request whatever the unit
  identifier is; the integer, float and write paths refuse a unit identifier outside
  \<open>[1,247] \<union> {255}\<close> before any request (\<open>asserted_reads_refuse_unit\<close>).
\<close>

lemma read_always_requests:
  "snd (read dev address count unit h) = h @ [ReadHolding address count unit]"
  by (simp add: read_def split: response.split)

lemma read_string_always_requests:
  "snd (read_string dev address count unit string_length h)
     = h @ [ReadHolding address count unit]"
proof -
  obtain x where r: "read dev address count unit h = (x, h @ [ReadHolding address count unit])"
    using read_always_requests [of dev address count unit h]
    by (cases "read dev address count unit h") simp
  show ?thesis
    unfolding read_string_def r
    by (cases x) (simp_all add: Let_def split: sum.split)
qed

lemma read_date_time_always_requests:
  "snd (read_date_time dev address unit h) = h @ [ReadHolding address 4 unit]"
proof -
  obtain x where r: "read dev address 4 unit h = (x, h @ [ReadHolding address 4 unit])"
    using read_always_requests [of dev address 4 unit h]
    by (cases "read dev address 4 unit h") simp
  show ?thesis
    unfolding read_date_time_def r
    by (cases x) simp_all
qed

text \<open>
  C4 at unit identifier 0, which fails the assertion: \<^verbatim>\<open>tag_name\<close> and
  \<^verbatim>\<open>tag_load_operating_time_start\<close> issue their read and return a value, while
  \<^verbatim>\<open>tag_usage\<close>, a 16-bit read, raises \<^verbatim>\<open>AssertionError\<close> with no request issued.
\<close>

theorem string_and_date_time_reads_skip_unit_check:
  "\<not> unit_ok 0
   \<and> tag_name (constant_device [0x4142, 0, 0, 0, 0, 0, 0, 0, 0, 0]) 0 []
       = (Inr (Some [0x41, 0x42]), [ReadHolding 0x7918 10 0])
   \<and> tag_load_operating_time_start (constant_device [24, 0x0105, 0x0A1E, 0x0E74]) 0 []
       = (Inr (Some \<lparr> dt_year = 2024, dt_month = 1, dt_day = 5, dt_hour = 10, dt_minute = 30,
                       dt_second = 3, dt_microsecond = 700 \<rparr>),
          [ReadHolding 0xCEF 4 0])
   \<and> tag_usage (constant_device [21]) 0 [] = (Inl AssertionError, [])"
proof -
  have u: "\<not> unit_ok 0" by (simp add: unit_ok_def)
  have n: "tag_name (constant_device [0x4142, 0, 0, 0, 0, 0, 0, 0, 0, 0]) 0 []
       = (Inr (Some [0x41, 0x42]), [ReadHolding 0x7918 10 0])"
    by (simp add: tag_name_def read_string_def read_def constant_device_def decoder_def
        decode_string_def and_cons_def)
  have r: "read (constant_device [24, 0x0105, 0x0A1E, 0x0E74]) 0xCEF 4 0 []
           = (Inr [24, 0x0105, 0x0A1E, 0x0E74], [ReadHolding 0xCEF 4 0])"
    by (simp add: read_def constant_device_def)
  have d: "decode_date_time (decoder [24, 0x0105, 0x0A1E, 0x0E74])
           = date_time_fields 24 0x0105 0x0A1E 0x0E74"
    by (simp add: decode_date_time_def decode_16bit_uint_decoder and_then_def)
  have f: "date_time_fields 24 0x0105 0x0A1E 0x0E74
           = Inr (Some \<lparr> dt_year = 2024, dt_month = 1, dt_day = 5, dt_hour = 10,
                           dt_minute = 30, dt_second = 3, dt_microsecond = 700 \<rparr>)"
    by (simp add: date_time_fields_def datetime_new_def days_in_month_def and_then_def
        drop_bit_eq_div)
  have t: "tag_load_operating_time_start (constant_device [24, 0x0105, 0x0A1E, 0x0E74]) 0 []
       = (Inr (Some \<lparr> dt_year = 2024, dt_month = 1, dt_day = 5, dt_hour = 10, dt_minute = 30,
                       dt_second = 3, dt_microsecond = 700 \<rparr>),
          [ReadHolding 0xCEF 4 0])"
    by (simp add: tag_load_operating_time_start_def read_date_time_def r d f)
  have g: "tag_usage (constant_device [21]) 0 [] = (Inl AssertionError, [])"
    using u by (simp add: tag_usage_def read_int_16_def on_result_def and_then_def)
  from u n t g show ?thesis by (intro conjI)
qed

subsection \<open>C9: duplicated RSSI addresses\<close>

text \<open>
  C9, as the code has it. On a device that holds 1.0 at \<open>0x79B1\<close> and 2.0 at \<open>0x79B6\<close>,
  \<^verbatim>\<open>tag_radio_rssi_minimum\<close> returns 2.0 and \<^verbatim>\<open>tag_radio_rssi_inside_gateway\<close> returns
  1.0: the two accessors read different addresses.
\<close>

theorem rssi_minimum_vs_gateway_counterexample:
  "fst (tag_radio_rssi_minimum rssi_device 1 []) = Inr (Some 0x40000000)
   \<and> fst (tag_radio_rssi_inside_gateway rssi_device 1 []) = Inr (Some 0x3F800000)
   \<and> tag_radio_rssi_minimum rssi_device 1 [] \<noteq> tag_radio_rssi_inside_gateway rssi_device 1 []
   \<and> snd (tag_radio_rssi_minimum rssi_device 1 []) = [ReadHolding 0x79B6 2 1]
   \<and> snd (tag_radio_rssi_inside_gateway rssi_device 1 []) = [ReadHolding 0x79B1 2 1]"
proof -
  have u: "unit_ok 1" by (simp add: unit_ok_def)
  have m: "rssi_device [] (ReadHolding 0x79B6 2 1) = Registers [0x4000, 0x0000]"
    by (simp add: rssi_device_def)
  have g: "rssi_device [] (ReadHolding 0x79B1 2 1) = Registers [0x3F80, 0x0000]"
    by (simp add: rssi_device_def)
  have nm: "\<not> isnan (0x40000000 :: 32 word)" by (simp add: isnan_def)
  have ng: "\<not> isnan (0x3F800000 :: 32 word)" by (simp add: isnan_def)
  have a: "tag_radio_rssi_minimum rssi_device 1 []
           = (Inr (Some 0x40000000), [ReadHolding 0x79B6 2 1])"
    unfolding tag_radio_rssi_minimum_def
      read_float_32_Registers [where dev = rssi_device and h = "[]", OF u m]
    using nm by simp
  have b: "tag_radio_rssi_inside_gateway rssi_device 1 []
           = (Inr (Some 0x3F800000), [ReadHolding 0x79B1 2 1])"
    unfolding tag_radio_rssi_inside_gateway_def
      read_float_32_Registers [where dev = rssi_device and h = "[]", OF u g]
    using ng by simp
  show ?thesis unfolding a b by simp
qed

text \<open>
  C9 (amended): \<^verbatim>\<open>tag_radio_rssi_minimum\<close> reads the same address with the same wire
  type as \<^verbatim>\<open>tag_radio_rssi_inside_tag\<close>, the 32-bit float at \<open>0x79B6\<close>, so these two are
  equal on every device, tag index and history; \<^verbatim>\<open>tag_radio_rssi_inside_gateway\<close> reads
  the 32-bit float at \<open>0x79B1\<close>.
\<close>

theorem rssi_minimum_is_tag_rssi:
  "tag_radio_rssi_minimum dev power_tag_index h = tag_radio_rssi_inside_tag dev power_tag_index h
   \<and> tag_radio_rssi_minimum dev power_tag_index h = read_float_32 dev 0x79B6 power_tag_index h
   \<and> tag_radio_rssi_inside_tag dev power_tag_index h = read_float_32 dev 0x79B6 power_tag_index h
   \<and> tag_radio_rssi_inside_gateway dev power_tag_index h
        = read_float_32 dev 0x79B1 power_tag_index h"
  by (simp only: tag_radio_rssi_minimum_def tag_radio_rssi_inside_tag_def
      tag_radio_rssi_inside_gateway_def simp_thms)

end
